theory Spec2Isabelle
  imports Main "HOL-Library.AList"
begin

section \<open>Python values used by the program\<close>

text \<open>
  A Python \<open>str\<close> is a \<open>string\<close>, a list of 8-bit characters: the bytes of its
  UTF-8 encoding, one character for each ASCII character. The characters that cannot be
  written inside a string literal get names.
\<close>

abbreviation BACKSLASH :: char where "BACKSLASH \<equiv> CHR 0x5C"
abbreviation NEWLINE :: char where "NEWLINE \<equiv> CHR 0x0A"
abbreviation BACKTICK :: char where "BACKTICK \<equiv> CHR 0x60"
abbreviation DQUOTE :: char where "DQUOTE \<equiv> CHR 0x22"
abbreviation SQUOTE :: char where "SQUOTE \<equiv> CHR 0x27"

text \<open>
  Exceptions are values. Only the classes the program can meet are listed; \<open>ApiError\<close>
  stands for any \<open>Exception\<close> raised by a Workspace API call, with its \<open>str(e)\<close>.
  \<open>JSONDecodeError\<close> is a subclass of \<open>ValueError\<close> in Python; the program only ever
  catches it by its own name or through \<open>except Exception\<close>.
\<close>

datatype exc =
    ValueError string
  | JSONDecodeError string
  | KeyError string
  | AttributeError string
  | TypeError string
  | RecursionError string
  | ApiError string

text \<open>\<open>str(e)\<close>; for a \<open>KeyError\<close> it is the \<open>repr\<close> of the key.\<close>

fun exc_str :: "exc \<Rightarrow> string" where
  "exc_str (ValueError m) = m"
| "exc_str (JSONDecodeError m) = m"
| "exc_str (KeyError k) = SQUOTE # k @ [SQUOTE]"
| "exc_str (AttributeError m) = m"
| "exc_str (TypeError m) = m"
| "exc_str (RecursionError m) = m"
| "exc_str (ApiError m) = m"

subsection \<open>String methods\<close>

text \<open>
  \<open>str.isspace\<close>, the class \<open>s.strip()\<close> removes, on the bytes of the UTF-8 encoding.
  One byte: tab, line feed, vertical tab, form feed, carriage return, the four separators
  \<open>0x1C\<close> to \<open>0x1F\<close>, and the space.
\<close>

definition is_space :: "char \<Rightarrow> bool" where
  "is_space c = (c \<in> set [CHR 0x09, CHR 0x0A, CHR 0x0B, CHR 0x0C, CHR 0x0D,
                            CHR 0x1C, CHR 0x1D, CHR 0x1E, CHR 0x1F, CHR 0x20])"

text \<open>Two bytes: \<open>U+0085\<close> and \<open>U+00A0\<close>.\<close>

definition is_space2 :: "char \<Rightarrow> char \<Rightarrow> bool" where
  "is_space2 a b = (a = CHR 0xC2 \<and> (b = CHR 0x85 \<or> b = CHR 0xA0))"

text \<open>
  Three bytes: \<open>U+1680\<close>, \<open>U+2000\<close> to \<open>U+200A\<close>, \<open>U+2028\<close>, \<open>U+2029\<close>,
  \<open>U+202F\<close>, \<open>U+205F\<close> and \<open>U+3000\<close>.
\<close>

definition is_space3 :: "char \<Rightarrow> char \<Rightarrow> char \<Rightarrow> bool" where
  "is_space3 a b c =
     ((a = CHR 0xE1 \<and> b = CHR 0x9A \<and> c = CHR 0x80)
      \<or> (a = CHR 0xE2 \<and> b = CHR 0x80
          \<and> c \<in> set [CHR 0x80, CHR 0x81, CHR 0x82, CHR 0x83, CHR 0x84, CHR 0x85, CHR 0x86,
                       CHR 0x87, CHR 0x88, CHR 0x89, CHR 0x8A, CHR 0xA8, CHR 0xA9, CHR 0xAF])
      \<or> (a = CHR 0xE2 \<and> b = CHR 0x81 \<and> c = CHR 0x9F)
      \<or> (a = CHR 0xE3 \<and> b = CHR 0x80 \<and> c = CHR 0x80))"

text \<open>
  Dropping from the front every character of a class given by its one-, two- and
  three-byte encodings.
\<close>

fun strip_front ::
  "(char \<Rightarrow> bool) \<Rightarrow> (char \<Rightarrow> char \<Rightarrow> bool) \<Rightarrow> (char \<Rightarrow> char \<Rightarrow> char \<Rightarrow> bool) \<Rightarrow> string \<Rightarrow> string" where
  "strip_front p1 p2 p3 (a # b # c # s) =
     (if p1 a then strip_front p1 p2 p3 (b # c # s)
      else if p2 a b then strip_front p1 p2 p3 (c # s)
      else if p3 a b c then strip_front p1 p2 p3 s
      else a # b # c # s)"
| "strip_front p1 p2 p3 [a, b] =
     (if p1 a then strip_front p1 p2 p3 [b]
      else if p2 a b then []
      else [a, b])"
| "strip_front p1 p2 p3 [a] = (if p1 a then [] else [a])"
| "strip_front p1 p2 p3 [] = []"

text \<open>\<open>s.lstrip()\<close>\<close>

definition str_lstrip :: "string \<Rightarrow> string" where
  "str_lstrip s = strip_front is_space is_space2 is_space3 s"

text \<open>\<open>s.rstrip()\<close>: the same from the end, where the bytes of a character come reversed.\<close>

definition str_rstrip :: "string \<Rightarrow> string" where
  "str_rstrip s =
     rev (strip_front is_space (\<lambda>b a. is_space2 a b) (\<lambda>c b a. is_space3 a b c) (rev s))"

text \<open>\<open>s.strip()\<close>\<close>

definition str_strip :: "string \<Rightarrow> string" where
  "str_strip s = str_rstrip (str_lstrip s)"

text \<open>\<open>s.strip(chars)\<close> for a class of one-byte characters: they go from both ends.\<close>

definition str_strip_chars :: "(char \<Rightarrow> bool) \<Rightarrow> string \<Rightarrow> string" where
  "str_strip_chars p s = rev (dropWhile p (rev (dropWhile p s)))"

text \<open>\<open>s.split(c)\<close> for a one-character separator: never empty, \<open>''.split(',') == ['']\<close>.\<close>

fun str_split :: "char \<Rightarrow> string \<Rightarrow> string list" where
  "str_split c [] = [[]]"
| "str_split c (x # xs) =
     (if x = c then [] # str_split c xs
      else (case str_split c xs of
              [] \<Rightarrow> [[x]]
            | w # ws \<Rightarrow> (x # w) # ws))"

text \<open>
  \<open>s.split(c, 1)\<close> when \<open>c in s\<close>: the text before the first \<open>c\<close> and the text after it.
\<close>

definition str_split_first :: "char \<Rightarrow> string \<Rightarrow> string \<times> string" where
  "str_split_first c s = (takeWhile (\<lambda>x. x \<noteq> c) s, drop 1 (dropWhile (\<lambda>x. x \<noteq> c) s))"

text \<open>
  \<open>s.replace('\\n', '\n')\<close>: left to right, every backslash followed by \<open>n\<close> becomes
  one line feed.
\<close>

fun str_replace_nl :: "string \<Rightarrow> string" where
  "str_replace_nl (a # b # rest) =
     (if a = BACKSLASH \<and> b = CHR ''n'' then NEWLINE # str_replace_nl rest
      else a # str_replace_nl (b # rest))"
| "str_replace_nl s = s"

subsection \<open>Dictionaries\<close>

text \<open>
  A \<open>dict\<close> keeps its keys in insertion order, and \<open>list(d.keys())[0]\<close> depends on it:
  a dictionary is an association list, \<open>d[k] = v\<close> is \<open>AList.update\<close> (the value is
  replaced in place when the key is there, appended otherwise), \<open>k in d\<close> is
  \<open>k \<in> fst ` set d\<close> and \<open>d.get(k)\<close> is \<open>map_of d k\<close>.
\<close>

type_synonym ('k, 'v) dict = "('k \<times> 'v) list"

section \<open>config.py\<close>

record config =
  client_secret_path :: string
  token_path :: string
  folder_id :: string
  folders :: "(string, string) dict"
  default_folder :: string

text \<open>\<open>os.getenv(name, default)\<close> over the environment \<open>env\<close>.\<close>

definition getenv_default :: "(string \<rightharpoonup> string) \<Rightarrow> string \<Rightarrow> string \<Rightarrow> string" where
  "getenv_default env name d = (case env name of None \<Rightarrow> d | Some v \<Rightarrow> v)"

text \<open>\<open>os.path.join(a, b)\<close> of \<open>posixpath\<close>, for a \<open>b\<close> that does not start with a slash.\<close>

definition path_join :: "string \<Rightarrow> string \<Rightarrow> string" where
  "path_join a b = (if a = [] \<or> last a = CHR ''/'' then a @ b else a @ CHR ''/'' # b)"

text \<open>
  Lines 35 to 39 of \<open>Config.from_env\<close>, the loop over \<open>folders_str.split(',')\<close>; the
  dictionary built so far is the accumulator.
\<close>

fun parse_items :: "(string, string) dict \<Rightarrow> string list \<Rightarrow> (string, string) dict" where
  "parse_items fs [] = fs"
| "parse_items fs (item # items) =
     (let item' = str_strip item in
      if CHR '':'' \<in> set item' then
        (let (alias, fid) = str_split_first (CHR '':'') item' in
         parse_items (AList.update (str_strip alias) (str_strip fid) fs) items)
      else parse_items fs items)"

text \<open>Lines 32 to 39: \<open>folders\<close> from the value of \<open>MCPGD_FOLDERS\<close>.\<close>

definition parse_folders :: "string \<Rightarrow> (string, string) dict" where
  "parse_folders folders_str =
     (if folders_str \<noteq> [] then parse_items [] (str_split (CHR '','') folders_str) else [])"

text \<open>
  \<open>Config.from_env\<close>. \<open>env\<close> is \<open>os.environ\<close> after \<open>load_dotenv()\<close>, \<open>home_dir\<close> is
  \<open>os.path.expanduser('~')\<close>. The log record is not modelled. \<open>folders[k]\<close> raises
  \<open>KeyError\<close> on a missing key; both reads are guarded by the source.
\<close>

definition from_env :: "(string \<rightharpoonup> string) \<Rightarrow> string \<Rightarrow> exc + config" where
  "from_env env home_dir =
     (case env ''MCPGD_CLIENT_SECRET_PATH'' of
        None \<Rightarrow> Inl (ValueError ''MCPGD_CLIENT_SECRET_PATH environment variable is required'')
      | Some csp \<Rightarrow>
        if csp = [] then
          Inl (ValueError ''MCPGD_CLIENT_SECRET_PATH environment variable is required'')
        else
          let tp0 = getenv_default env ''MCPGD_TOKEN_PATH'' [];
              tp = (if tp0 = [] then path_join home_dir ''.mcp_google_spreadsheet.json'' else tp0);
              fs = parse_folders (getenv_default env ''MCPGD_FOLDERS'' []);
              df = getenv_default env ''MCPGD_DEFAULT_FOLDER'' [];
              fid = getenv_default env ''MCPGD_FOLDER_ID'' [];
              r = (if fs = [] \<and> fid \<noteq> [] then
                     Inr ([(''default'', fid)], ''default'', fid)
                   else if fs \<noteq> [] \<and> fid = [] then
                     (if df \<noteq> [] \<and> df \<in> fst ` set fs then
                        (case map_of fs df of
                           None \<Rightarrow> Inl (KeyError df)
                         | Some v \<Rightarrow> Inr (fs, df, v))
                      else if fs \<noteq> [] then
                        (let first_alias = fst (hd fs) in
                         case map_of fs first_alias of
                           None \<Rightarrow> Inl (KeyError first_alias)
                         | Some v \<Rightarrow> Inr (fs, if df = [] then first_alias else df, v))
                      else Inr (fs, df, fid))
                   else Inr (fs, df, fid))
          in case r of
               Inl e \<Rightarrow> Inl e
             | Inr (fs', df', fid') \<Rightarrow>
                 if fid' = [] \<and> fs' = [] then
                   Inl (ValueError ''MCPGD_FOLDERS or MCPGD_FOLDER_ID environment variable is required'')
                 else
                   Inr \<lparr>client_secret_path = csp, token_path = tp, folder_id = fid',
                        folders = fs', default_folder = df'\<rparr>)"

text \<open>\<open>Config.get_folder_id\<close>; \<open>not folder\<close> holds for \<open>None\<close> and for the empty string.\<close>

definition get_folder_id :: "config \<Rightarrow> string option \<Rightarrow> string" where
  "get_folder_id cfg folder =
     (case folder of
        None \<Rightarrow> folder_id cfg
      | Some f \<Rightarrow>
          if f = [] then folder_id cfg
          else (case map_of (folders cfg) f of
                  Some v \<Rightarrow> v
                | None \<Rightarrow> f))"

text \<open>\<open>Config.get_folder_name\<close>: the first alias, in the dictionary's order, of the folder.\<close>

fun find_alias :: "(string, string) dict \<Rightarrow> string \<Rightarrow> string" where
  "find_alias [] fid = []"
| "find_alias ((alias, v) # d) fid = (if v = fid then alias else find_alias d fid)"

definition get_folder_name :: "config \<Rightarrow> string \<Rightarrow> string" where
  "get_folder_name cfg fid = find_alias (folders cfg) fid"


subsection \<open>The parsing rule in the specification's words\<close>

text \<open>
  The specification's rule for the multi-folder variable, read literally: the candidate
  entries are the pieces between commas, trimmed; those with a colon give a pair (the
  text before the first colon, the text after it, both trimmed); the others are skipped.
\<close>

definition entries_of :: "string list \<Rightarrow> (string \<times> string) list" where
  "entries_of items =
     map (\<lambda>e. (str_strip (fst (str_split_first (CHR '':'') e)),
                str_strip (snd (str_split_first (CHR '':'') e))))
       (filter (\<lambda>e. CHR '':'' \<in> set e) (map str_strip items))"

text \<open>
  Later duplicate aliases overwrite earlier ones: the mapping looks an alias up from the
  last entry backwards.
\<close>

definition spec_parse_folders :: "string \<Rightarrow> (string \<rightharpoonup> string)" where
  "spec_parse_folders raw = map_of (rev (entries_of (str_split (CHR '','') raw)))"

text \<open>
  What the rule's three operations mean, said without the functions that compute them.
  The pieces of a split, joined again by the separator, are the text. A text is a run of
  whitespace when it is made of whitespace characters only; it starts (ends) with
  whitespace when its first (last) character is one.
\<close>

fun str_join :: "char \<Rightarrow> string list \<Rightarrow> string" where
  "str_join c [] = []"
| "str_join c [p] = p"
| "str_join c (p # q # ps) = p @ c # str_join c (q # ps)"

fun all_space ::
  "(char \<Rightarrow> bool) \<Rightarrow> (char \<Rightarrow> char \<Rightarrow> bool) \<Rightarrow> (char \<Rightarrow> char \<Rightarrow> char \<Rightarrow> bool) \<Rightarrow> string \<Rightarrow> bool" where
  "all_space p1 p2 p3 (a # b # c # s) =
     ((p1 a \<and> all_space p1 p2 p3 (b # c # s))
      \<or> (p2 a b \<and> all_space p1 p2 p3 (c # s))
      \<or> (p3 a b c \<and> all_space p1 p2 p3 s))"
| "all_space p1 p2 p3 [a, b] = ((p1 a \<and> all_space p1 p2 p3 [b]) \<or> p2 a b)"
| "all_space p1 p2 p3 [a] = p1 a"
| "all_space p1 p2 p3 [] = True"

fun starts ::
  "(char \<Rightarrow> bool) \<Rightarrow> (char \<Rightarrow> char \<Rightarrow> bool) \<Rightarrow> (char \<Rightarrow> char \<Rightarrow> char \<Rightarrow> bool) \<Rightarrow> string \<Rightarrow> bool" where
  "starts p1 p2 p3 (a # b # c # s) = (p1 a \<or> p2 a b \<or> p3 a b c)"
| "starts p1 p2 p3 [a, b] = (p1 a \<or> p2 a b)"
| "starts p1 p2 p3 [a] = p1 a"
| "starts p1 p2 p3 [] = False"

definition space_run :: "string \<Rightarrow> bool" where
  "space_run s = all_space is_space is_space2 is_space3 s"

definition starts_with_space :: "string \<Rightarrow> bool" where
  "starts_with_space s = starts is_space is_space2 is_space3 s"

definition ends_with_space :: "string \<Rightarrow> bool" where
  "ends_with_space s = starts is_space (\<lambda>b a. is_space2 a b) (\<lambda>c b a. is_space3 a b c) (rev s)"

text \<open>
  The two conditions under which the specification says resolution fails: no credential
  path, or neither a legacy folder ID nor a parsed folder entry.
\<close>

definition env_missing :: "(string \<rightharpoonup> string) \<Rightarrow> bool" where
  "env_missing env \<longleftrightarrow>
     env ''MCPGD_CLIENT_SECRET_PATH'' = None \<or> env ''MCPGD_CLIENT_SECRET_PATH'' = Some []
     \<or> (getenv_default env ''MCPGD_FOLDER_ID'' [] = []
         \<and> parse_folders (getenv_default env ''MCPGD_FOLDERS'' []) = [])"

section \<open>json.loads\<close>

text \<open>
  \<open>json.loads\<close> belongs to the Python standard library, not to the repository. The
  tool \<open>add_slide_to_presentation\<close> takes it as a parameter \<open>loads\<close>, and
  \<open>json_loads\<close> below follows the library's decoder (\<open>json.decoder\<close> and
  \<open>json.scanner\<close>) so that the tool can be run on concrete inputs. A float is kept as
  its literal. Not modelled: the limit on the digits of an integer literal and the
  interpreter's recursion limit.
\<close>

datatype json =
    JNull
  | JBool bool
  | JInt int
  | JFloat string
  | JStr string
  | JArray "json list"
  | JObject "(string \<times> json) list"

text \<open>\<open>type(v).__name__\<close> of a decoded value.\<close>

fun json_type_name :: "json \<Rightarrow> string" where
  "json_type_name JNull = ''NoneType''"
| "json_type_name (JBool b) = ''bool''"
| "json_type_name (JInt i) = ''int''"
| "json_type_name (JFloat f) = ''float''"
| "json_type_name (JStr s) = ''str''"
| "json_type_name (JArray xs) = ''list''"
| "json_type_name (JObject d) = ''dict''"

text \<open>\<open>raise JSONDecodeError(msg, ...)\<close>; the position is left out of the message.\<close>

definition decode_error :: "string \<Rightarrow> exc + 'a" where
  "decode_error m = Inl (JSONDecodeError m)"

text \<open>\<open>WHITESPACE\<close>: space, tab, line feed, carriage return.\<close>

definition is_json_ws :: "char \<Rightarrow> bool" where
  "is_json_ws c = (c \<in> set [CHR 0x20, CHR 0x09, CHR 0x0A, CHR 0x0D])"

definition skip_ws :: "string \<Rightarrow> string" where
  "skip_ws s = dropWhile is_json_ws s"

definition is_digit :: "char \<Rightarrow> bool" where
  "is_digit c = (c \<in> set ''0123456789'')"

definition digit_val :: "char \<Rightarrow> nat" where
  "digit_val c = of_char c - 48"

definition dec_val :: "string \<Rightarrow> nat" where
  "dec_val ds = foldl (\<lambda>a c. 10 * a + digit_val c) 0 ds"

definition hex_val :: "char \<Rightarrow> nat option" where
  "hex_val c =
     (if is_digit c then Some (of_char c - 48)
      else if c \<in> set ''abcdef'' then Some (of_char c - 87)
      else if c \<in> set ''ABCDEF'' then Some (of_char c - 55)
      else None)"

fun hex4 :: "string \<Rightarrow> nat option" where
  "hex4 [a, b, c, d] =
     (case (hex_val a, hex_val b, hex_val c, hex_val d) of
        (Some x, Some y, Some z, Some w) \<Rightarrow> Some (((x * 16 + y) * 16 + z) * 16 + w)
      | _ \<Rightarrow> None)"
| "hex4 _ = None"

text \<open>The UTF-8 bytes of a code point.\<close>

definition utf8_encode :: "nat \<Rightarrow> string" where
  "utf8_encode n =
     (if n < 0x80 then [char_of n]
      else if n < 0x800 then [char_of (0xC0 + n div 64), char_of (0x80 + n mod 64)]
      else if n < 0x10000 then
        [char_of (0xE0 + n div 4096), char_of (0x80 + n div 64 mod 64), char_of (0x80 + n mod 64)]
      else
        [char_of (0xF0 + n div 262144), char_of (0x80 + n div 4096 mod 64),
         char_of (0x80 + n div 64 mod 64), char_of (0x80 + n mod 64)])"

text \<open>\<open>BACKSLASH\<close>, the table of the one-character escapes.\<close>

definition escape_char :: "char \<Rightarrow> char option" where
  "escape_char e =
     (if e = DQUOTE then Some DQUOTE
      else if e = BACKSLASH then Some BACKSLASH
      else if e = CHR ''/'' then Some (CHR ''/'')
      else if e = CHR ''b'' then Some (CHR 0x08)
      else if e = CHR ''f'' then Some (CHR 0x0C)
      else if e = CHR ''n'' then Some NEWLINE
      else if e = CHR ''r'' then Some (CHR 0x0D)
      else if e = CHR ''t'' then Some (CHR 0x09)
      else None)"

definition cons_chunk :: "string \<Rightarrow> exc + string \<times> string \<Rightarrow> exc + string \<times> string" where
  "cons_chunk t r = (case r of Inl e \<Rightarrow> Inl e | Inr (u, rest) \<Rightarrow> Inr (t @ u, rest))"

text \<open>
  \<open>scanstring\<close>, called after the opening quote: the decoded text up to the closing
  quote and the input after it. Control characters are refused (strict mode); a
  \<open>\u\<close> escape gives the UTF-8 bytes of its code point, a high surrogate followed by
  a low one giving one code point.
\<close>

function scanstring :: "string \<Rightarrow> exc + string \<times> string" where
  "scanstring [] = decode_error ''Unterminated string starting at''"
| "scanstring (c # cs) =
     (if c = DQUOTE then Inr ([], cs)
      else if c = BACKSLASH then
        (case cs of
           [] \<Rightarrow> decode_error ''Unterminated string starting at''
         | e # r \<Rightarrow>
             if e = CHR ''u'' then
               (case hex4 (take 4 r) of
                  None \<Rightarrow> decode_error ''Invalid uXXXX escape''
                | Some uni \<Rightarrow>
                    (case drop 4 r of
                       b # u # r2 \<Rightarrow>
                         if 0xD800 \<le> uni \<and> uni \<le> 0xDBFF \<and> b = BACKSLASH \<and> u = CHR ''u'' then
                           (case hex4 (take 4 r2) of
                              None \<Rightarrow> decode_error ''Invalid uXXXX escape''
                            | Some uni2 \<Rightarrow>
                                if 0xDC00 \<le> uni2 \<and> uni2 \<le> 0xDFFF then
                                  cons_chunk
                                    (utf8_encode (0x10000 + ((uni - 0xD800) * 1024 + (uni2 - 0xDC00))))
                                    (scanstring (drop 4 r2))
                                else cons_chunk (utf8_encode uni) (scanstring (b # u # r2)))
                         else cons_chunk (utf8_encode uni) (scanstring (b # u # r2))
                     | r1 \<Rightarrow> cons_chunk (utf8_encode uni) (scanstring r1)))
             else
               (case escape_char e of
                  None \<Rightarrow> decode_error ''Invalid escape''
                | Some ch \<Rightarrow> cons_chunk [ch] (scanstring r)))
      else if of_char c < (32 :: nat) then decode_error ''Invalid control character at''
      else cons_chunk [c] (scanstring cs))"
  by pat_completeness auto

termination scanstring
  by (relation "measure length") (auto dest!: arg_cong [where f = length])



text \<open>NUMBER_RE: integer part, optional fraction, optional exponent.\<close>

definition match_int_part :: "string \<Rightarrow> (string \<times> string) option" where
  "match_int_part s =
     (case s of
        [] \<Rightarrow> None
      | c # cs \<Rightarrow>
          if c = CHR ''0'' then Some ([c], cs)
          else if is_digit c then Some (c # takeWhile is_digit cs, dropWhile is_digit cs)
          else None)"

definition match_frac :: "string \<Rightarrow> string \<times> string" where
  "match_frac s =
     (case s of
        p # d # r \<Rightarrow>
          if p = CHR ''.'' \<and> is_digit d then
            (p # d # takeWhile is_digit r, dropWhile is_digit r)
          else ([], s)
      | _ \<Rightarrow> ([], s))"

definition match_exp :: "string \<Rightarrow> string \<times> string" where
  "match_exp s =
     (case s of
        e # r \<Rightarrow>
          if e = CHR ''e'' \<or> e = CHR ''E'' then
            (let (sign, r1) =
                   (case r of
                      g # r' \<Rightarrow> if g = CHR ''-'' \<or> g = CHR ''+'' then ([g], r') else ([], r)
                    | [] \<Rightarrow> ([], r))
             in case r1 of
                  d # r2 \<Rightarrow>
                    if is_digit d then
                      (e # sign @ d # takeWhile is_digit r2, dropWhile is_digit r2)
                    else ([], s)
                | [] \<Rightarrow> ([], s))
          else ([], s)
      | [] \<Rightarrow> ([], s))"

definition match_number :: "string \<Rightarrow> (json \<times> string) option" where
  "match_number s =
     (let (sign, s1) =
            (case s of
               c # cs \<Rightarrow> if c = CHR ''-'' then ([c], cs) else ([], s)
             | [] \<Rightarrow> ([], s))
      in case match_int_part s1 of
           None \<Rightarrow> None
         | Some (ip, r1) \<Rightarrow>
             (let (frac, r2) = match_frac r1;
                  (ex, r3) = match_exp r2
              in if frac \<noteq> [] \<or> ex \<noteq> [] then Some (JFloat (sign @ ip @ frac @ ex), r3)
                 else Some (JInt (if sign = [] then int (dec_val ip) else - int (dec_val ip)), r3)))"

text \<open>
  \<open>scan_once\<close>, \<open>JSONArray\<close> and \<open>JSONObject\<close>. The three call each other; the
  first argument bounds the number of nested calls and \<open>None\<close> means that the bound was
  reached. \<open>parse_array\<close> starts at the first character of an element and
  \<open>parse_object\<close> after the opening quote of a key; both carry what they have read.
\<close>

fun scan_once :: "nat \<Rightarrow> string \<Rightarrow> (exc + json \<times> string) option"
  and parse_array :: "nat \<Rightarrow> json list \<Rightarrow> string \<Rightarrow> (exc + json \<times> string) option"
  and parse_object :: "nat \<Rightarrow> (string \<times> json) list \<Rightarrow> string \<Rightarrow> (exc + json \<times> string) option"
  where
  "scan_once 0 s = None"
| "scan_once (Suc n) s =
     (case s of
        [] \<Rightarrow> Some (decode_error ''Expecting value'')
      | c # cs \<Rightarrow>
          if c = DQUOTE then
            (case scanstring cs of
               Inl e \<Rightarrow> Some (Inl e)
             | Inr (t, r) \<Rightarrow> Some (Inr (JStr t, r)))
          else if c = CHR ''{'' then
            (case skip_ws cs of
               [] \<Rightarrow> Some (decode_error ''Expecting property name enclosed in double quotes'')
             | d # r \<Rightarrow>
                 if d = CHR ''}'' then Some (Inr (JObject [], r))
                 else if d = DQUOTE then parse_object n [] r
                 else Some (decode_error ''Expecting property name enclosed in double quotes''))
          else if c = CHR ''['' then
            (case skip_ws cs of
               [] \<Rightarrow> parse_array n [] []
             | d # r \<Rightarrow>
                 if d = CHR '']'' then Some (Inr (JArray [], r))
                 else parse_array n [] (d # r))
          else if c = CHR ''n'' \<and> take 4 s = ''null'' then Some (Inr (JNull, drop 4 s))
          else if c = CHR ''t'' \<and> take 4 s = ''true'' then Some (Inr (JBool True, drop 4 s))
          else if c = CHR ''f'' \<and> take 5 s = ''false'' then Some (Inr (JBool False, drop 5 s))
          else
            (case match_number s of
               Some (v, r) \<Rightarrow> Some (Inr (v, r))
             | None \<Rightarrow>
                 if c = CHR ''N'' \<and> take 3 s = ''NaN'' then
                   Some (Inr (JFloat ''NaN'', drop 3 s))
                 else if c = CHR ''I'' \<and> take 8 s = ''Infinity'' then
                   Some (Inr (JFloat ''Infinity'', drop 8 s))
                 else if c = CHR ''-'' \<and> take 9 s = ''-Infinity'' then
                   Some (Inr (JFloat ''-Infinity'', drop 9 s))
                 else Some (decode_error ''Expecting value'')))"
| "parse_array 0 vs s = None"
| "parse_array (Suc n) vs s =
     (case scan_once n s of
        None \<Rightarrow> None
      | Some (Inl e) \<Rightarrow> Some (Inl e)
      | Some (Inr (v, r)) \<Rightarrow>
          (case skip_ws r of
             [] \<Rightarrow> Some (decode_error ''Expecting , delimiter'')
           | d # r1 \<Rightarrow>
               if d = CHR '']'' then Some (Inr (JArray (vs @ [v]), r1))
               else if d = CHR '','' then parse_array n (vs @ [v]) (skip_ws r1)
               else Some (decode_error ''Expecting , delimiter'')))"
| "parse_object 0 pairs s = None"
| "parse_object (Suc n) pairs s =
     (case scanstring s of
        Inl e \<Rightarrow> Some (Inl e)
      | Inr (key, r) \<Rightarrow>
          (case skip_ws r of
             [] \<Rightarrow> Some (decode_error ''Expecting : delimiter'')
           | d # r1 \<Rightarrow>
               if d \<noteq> CHR '':'' then Some (decode_error ''Expecting : delimiter'')
               else
                 (case scan_once n (skip_ws r1) of
                    None \<Rightarrow> None
                  | Some (Inl e) \<Rightarrow> Some (Inl e)
                  | Some (Inr (v, r2)) \<Rightarrow>
                      (case skip_ws r2 of
                         [] \<Rightarrow> Some (decode_error ''Expecting , delimiter'')
                       | d2 # r3 \<Rightarrow>
                           if d2 = CHR ''}'' then
                             Some (Inr (JObject (AList.update key v pairs), r3))
                           else if d2 = CHR '','' then
                             (case skip_ws r3 of
                                [] \<Rightarrow> Some (decode_error
                                        ''Expecting property name enclosed in double quotes'')
                              | q # r4 \<Rightarrow>
                                  if q = DQUOTE then
                                    parse_object n (AList.update key v pairs) r4
                                  else Some (decode_error
                                         ''Expecting property name enclosed in double quotes''))
                           else Some (decode_error ''Expecting , delimiter'')))))"

text \<open>
  \<open>json.loads\<close>: leading whitespace, one value, trailing whitespace, nothing else. The
  bound lets every character open two calls.
\<close>

definition json_loads :: "string \<Rightarrow> exc + json" where
  "json_loads s =
     (case scan_once (2 * length s + 2) (skip_ws s) of
        None \<Rightarrow> Inl (RecursionError ''maximum recursion depth exceeded'')
      | Some (Inl e) \<Rightarrow> Inl e
      | Some (Inr (v, r)) \<Rightarrow> if skip_ws r = [] then Inr v else decode_error ''Extra data'')"

section \<open>Values crossing the tool boundary\<close>

text \<open>
  The values of type \<open>Any\<close> that the tools receive from their delegates and return:
  \<open>None\<close>, booleans, integers, strings, lists and dictionaries with string keys.
\<close>

datatype pyval =
    PNone
  | PBool bool
  | PInt int
  | PStr string
  | PList "pyval list"
  | PDict "(string \<times> pyval) list"

type_synonym pydict = "(string, pyval) dict"

text \<open>The truth value Python gives a value in \<open>if v:\<close>, \<open>a or b\<close> and \<open>a and b\<close>.\<close>

fun truthy :: "pyval \<Rightarrow> bool" where
  "truthy PNone = False"
| "truthy (PBool b) = b"
| "truthy (PInt i) = (i \<noteq> 0)"
| "truthy (PStr s) = (s \<noteq> [])"
| "truthy (PList xs) = (xs \<noteq> [])"
| "truthy (PDict d) = (d \<noteq> [])"

fun type_name :: "pyval \<Rightarrow> string" where
  "type_name PNone = ''NoneType''"
| "type_name (PBool b) = ''bool''"
| "type_name (PInt i) = ''int''"
| "type_name (PStr s) = ''str''"
| "type_name (PList xs) = ''list''"
| "type_name (PDict d) = ''dict''"

text \<open>\<open>d.get(k)\<close>: \<open>None\<close> for a missing key.\<close>

definition dict_get :: "pydict \<Rightarrow> string \<Rightarrow> pyval" where
  "dict_get d k = (case map_of d k of None \<Rightarrow> PNone | Some v \<Rightarrow> v)"

text \<open>\<open>a or b\<close>\<close>

definition py_or :: "pyval \<Rightarrow> pyval \<Rightarrow> pyval" where
  "py_or a b = (if truthy a then a else b)"

text \<open>The message of the \<open>AttributeError\<close> for a method the type does not have.\<close>

definition no_attribute :: "string \<Rightarrow> string \<Rightarrow> exc" where
  "no_attribute tn attr =
     AttributeError (SQUOTE # tn @ SQUOTE # '' object has no attribute '' @ SQUOTE # attr @ [SQUOTE])"

section \<open>google\_drive.py\<close>

text \<open>
  The Google API client is outside the repository: each request \<open>....execute()\<close> is a
  parameter \<open>api_...\<close> of the method that makes it, a function from the request's
  arguments to the response, a dictionary, or to the exception the request raises.
\<close>

text \<open>\<open>folder or self.config.default_folder\<close>\<close>

definition folder_or_default :: "config \<Rightarrow> string option \<Rightarrow> string" where
  "folder_or_default cfg folder =
     (case folder of
        None \<Rightarrow> default_folder cfg
      | Some f \<Rightarrow> if f \<noteq> [] then f else default_folder cfg)"

text \<open>\<open>GoogleDrive.copy_file\<close>\<close>

definition drive_copy_file ::
  "(string \<Rightarrow> pydict \<Rightarrow> exc + pydict) \<Rightarrow> string \<Rightarrow> string \<Rightarrow> pydict" where
  "drive_copy_file api_files_copy file_id new_name =
     (let file_metadata = [(''name'', PStr new_name)] in
      case api_files_copy file_id file_metadata of
        Inr result \<Rightarrow> result
      | Inl e \<Rightarrow> [])"

text \<open>\<open>GoogleDrive.rename_file\<close>\<close>

definition drive_rename_file ::
  "(string \<Rightarrow> pydict \<Rightarrow> exc + pydict) \<Rightarrow> string \<Rightarrow> string \<Rightarrow> pydict" where
  "drive_rename_file api_files_update file_id new_name =
     (let file_metadata = [(''name'', PStr new_name)] in
      case api_files_update file_id file_metadata of
        Inr result \<Rightarrow> result
      | Inl e \<Rightarrow> [])"

text \<open>
  \<open>GoogleDrive.create_spreadsheet\<close>. \<open>spreadsheet['spreadsheetId']\<close> raises \<open>KeyError\<close>
  on a response without the key, which the outer \<open>except Exception\<close> catches like any
  exception of the request. The inner \<open>try\<close> block of lines 118 to 147, which moves the
  new file to the target folder, catches every exception it meets and its outcome is only
  logged: it has no part in the value returned.
\<close>

definition drive_create_spreadsheet ::
  "config \<Rightarrow> (pydict \<Rightarrow> exc + pydict) \<Rightarrow> string \<Rightarrow> string option \<Rightarrow> pydict" where
  "drive_create_spreadsheet cfg api_spreadsheets_create title folder =
     (let spreadsheet =
            [(''properties'', PDict [(''title'', PStr title)]),
             (''sheets'', PList [PDict [(''properties'', PDict [(''title'', PStr ''Sheet1'')])]])]
      in case api_spreadsheets_create spreadsheet of
           Inl e \<Rightarrow> []
         | Inr created \<Rightarrow>
             (case map_of created ''spreadsheetId'' of
                None \<Rightarrow> []
              | Some spreadsheet_id \<Rightarrow>
                  [(''spreadsheetId'', spreadsheet_id),
                   (''title'', PStr title),
                   (''folder'', PStr (folder_or_default cfg folder))]))"

text \<open>\<open>GoogleDrive.create_spreadsheet_from_template\<close>\<close>

definition drive_create_spreadsheet_from_template ::
  "config \<Rightarrow> (string \<Rightarrow> pydict \<Rightarrow> exc + pydict) \<Rightarrow> string \<Rightarrow> string \<Rightarrow> string option
    \<Rightarrow> pydict" where
  "drive_create_spreadsheet_from_template cfg api_files_copy template_id title folder =
     (let target_folder_id = get_folder_id cfg folder;
          file_metadata = [(''name'', PStr title), (''parents'', PList [PStr target_folder_id])]
      in case api_files_copy template_id file_metadata of
           Inl e \<Rightarrow> []
         | Inr result \<Rightarrow>
             if result \<noteq> [] then
               [(''spreadsheetId'', dict_get result ''id''),
                (''title'', PStr title),
                (''folder'', PStr (folder_or_default cfg folder))]
             else [])"

text \<open>\<open>GoogleDrive.create_spreadsheet_from_existing\<close>\<close>

definition drive_create_spreadsheet_from_existing ::
  "config \<Rightarrow> (string \<Rightarrow> pydict \<Rightarrow> exc + pydict) \<Rightarrow> string \<Rightarrow> string \<Rightarrow> string option
    \<Rightarrow> pydict" where
  "drive_create_spreadsheet_from_existing cfg api_files_copy source_id title folder =
     (let target_folder_id = get_folder_id cfg folder;
          file_metadata = [(''name'', PStr title), (''parents'', PList [PStr target_folder_id])]
      in case api_files_copy source_id file_metadata of
           Inl e \<Rightarrow> []
         | Inr result \<Rightarrow>
             if result \<noteq> [] then
               [(''spreadsheetId'', dict_get result ''id''),
                (''title'', PStr title),
                (''folder'', PStr (folder_or_default cfg folder))]
             else [])"

section \<open>main.py\<close>

text \<open>
  The module's global \<open>current_spreadsheet_id\<close>, \<open>None\<close> at start. A tool that assigns
  it returns the new state with its result. The delegates (\<open>drive.\<close>, \<open>sheets.\<close> and
  \<open>slides.\<close> methods) are the first parameter of each tool.
\<close>

record session =
  current_spreadsheet_id :: pyval

definition initial_session :: session where
  "initial_session = \<lparr>current_spreadsheet_id = PNone\<rparr>"

definition copy_file :: "(string \<Rightarrow> string \<Rightarrow> pydict) \<Rightarrow> string \<Rightarrow> string \<Rightarrow> pydict" where
  "copy_file drive_copy file_id new_name = drive_copy file_id new_name"

definition rename_file :: "(string \<Rightarrow> string \<Rightarrow> pydict) \<Rightarrow> string \<Rightarrow> string \<Rightarrow> pydict" where
  "rename_file drive_rename file_id new_name = drive_rename file_id new_name"

definition create_spreadsheet ::
  "(string \<Rightarrow> string option \<Rightarrow> pydict) \<Rightarrow> session \<Rightarrow> string \<Rightarrow> string option
    \<Rightarrow> pydict \<times> session" where
  "create_spreadsheet drive_create st title folder =
     (let result = drive_create title folder in
      if result \<noteq> [] then
        (let spreadsheet_id = py_or (dict_get result ''spreadsheetId'') (dict_get result ''id'') in
         if truthy spreadsheet_id then
           (result, st\<lparr>current_spreadsheet_id := spreadsheet_id\<rparr>)
         else (result, st))
      else (result, st))"

definition create_spreadsheet_from_template ::
  "(string \<Rightarrow> string \<Rightarrow> string option \<Rightarrow> pydict) \<Rightarrow> session \<Rightarrow> string \<Rightarrow> string
    \<Rightarrow> string option \<Rightarrow> pydict \<times> session" where
  "create_spreadsheet_from_template drive_create st template_id title folder =
     (let result = drive_create template_id title folder in
      if result \<noteq> [] then
        (let spreadsheet_id = py_or (dict_get result ''spreadsheetId'') (dict_get result ''id'') in
         if truthy spreadsheet_id then
           (result, st\<lparr>current_spreadsheet_id := spreadsheet_id\<rparr>)
         else (result, st))
      else (result, st))"

definition create_spreadsheet_from_existing ::
  "(string \<Rightarrow> string \<Rightarrow> string option \<Rightarrow> pydict) \<Rightarrow> session \<Rightarrow> string \<Rightarrow> string
    \<Rightarrow> string option \<Rightarrow> pydict \<times> session" where
  "create_spreadsheet_from_existing drive_create st source_id title folder =
     (let result = drive_create source_id title folder in
      if result \<noteq> [] then
        (let spreadsheet_id = py_or (dict_get result ''spreadsheetId'') (dict_get result ''id'') in
         if truthy spreadsheet_id then
           (result, st\<lparr>current_spreadsheet_id := spreadsheet_id\<rparr>)
         else (result, st))
      else (result, st))"

text \<open>
  The sheet tools. The argument \<open>spreadsheet_id\<close> is \<open>None\<close> or a string; the delegate
  receives a string or whatever the global holds. None of them assigns the global.
\<close>

definition list_sheets :: "(pyval \<Rightarrow> 'r) \<Rightarrow> session \<Rightarrow> string option \<Rightarrow> 'r" where
  "list_sheets sheets_list_sheets st spreadsheet_id =
     (let sid = (case spreadsheet_id of
                   None \<Rightarrow> current_spreadsheet_id st
                 | Some s \<Rightarrow> PStr s)
      in sheets_list_sheets sid)"

text \<open>\<open>add_sheet\<close> passes its argument on as it is.\<close>

definition add_sheet :: "(pyval \<Rightarrow> string \<Rightarrow> 'r) \<Rightarrow> session \<Rightarrow> string option \<Rightarrow> string \<Rightarrow> 'r" where
  "add_sheet sheets_add_sheet st spreadsheet_id sheet_name =
     (let sid = (case spreadsheet_id of
                   None \<Rightarrow> PNone
                 | Some s \<Rightarrow> PStr s)
      in sheets_add_sheet sid sheet_name)"

definition duplicate_sheet ::
  "(pyval \<Rightarrow> int \<Rightarrow> string \<Rightarrow> 'r) \<Rightarrow> session \<Rightarrow> string option \<Rightarrow> int \<Rightarrow> string \<Rightarrow> 'r" where
  "duplicate_sheet sheets_duplicate_sheet st spreadsheet_id sheet_id new_name =
     (let sid = (case spreadsheet_id of
                   None \<Rightarrow> current_spreadsheet_id st
                 | Some s \<Rightarrow> PStr s)
      in sheets_duplicate_sheet sid sheet_id new_name)"

definition rename_sheet ::
  "(pyval \<Rightarrow> int \<Rightarrow> string \<Rightarrow> 'r) \<Rightarrow> session \<Rightarrow> string option \<Rightarrow> int \<Rightarrow> string \<Rightarrow> 'r" where
  "rename_sheet sheets_rename_sheet st spreadsheet_id sheet_id new_name =
     (let sid = (case spreadsheet_id of
                   None \<Rightarrow> current_spreadsheet_id st
                 | Some s \<Rightarrow> PStr s)
      in sheets_rename_sheet sid sheet_id new_name)"

definition get_sheet_data ::
  "(pyval \<Rightarrow> string \<Rightarrow> string \<Rightarrow> 'r) \<Rightarrow> session \<Rightarrow> string option \<Rightarrow> string \<Rightarrow> string \<Rightarrow> 'r" where
  "get_sheet_data sheets_get_sheet_data st spreadsheet_id sheet_name range_name =
     (let sid = (case spreadsheet_id of
                   None \<Rightarrow> current_spreadsheet_id st
                 | Some s \<Rightarrow> PStr s)
      in sheets_get_sheet_data sid sheet_name range_name)"

definition add_rows ::
  "(pyval \<Rightarrow> string \<Rightarrow> pyval list list \<Rightarrow> 'r) \<Rightarrow> session \<Rightarrow> string option \<Rightarrow> string
    \<Rightarrow> pyval list list \<Rightarrow> 'r" where
  "add_rows sheets_add_rows st spreadsheet_id sheet_name vals =
     (let sid = (case spreadsheet_id of
                   None \<Rightarrow> current_spreadsheet_id st
                 | Some s \<Rightarrow> PStr s)
      in sheets_add_rows sid sheet_name vals)"

definition add_columns ::
  "(pyval \<Rightarrow> string \<Rightarrow> pyval list list \<Rightarrow> 'r) \<Rightarrow> session \<Rightarrow> string option \<Rightarrow> string
    \<Rightarrow> pyval list list \<Rightarrow> 'r" where
  "add_columns sheets_add_columns st spreadsheet_id sheet_name vals =
     (let sid = (case spreadsheet_id of
                   None \<Rightarrow> current_spreadsheet_id st
                 | Some s \<Rightarrow> PStr s)
      in sheets_add_columns sid sheet_name vals)"

definition update_cells ::
  "(pyval \<Rightarrow> string \<Rightarrow> string \<Rightarrow> pyval list list \<Rightarrow> 'r) \<Rightarrow> session \<Rightarrow> string option
    \<Rightarrow> string \<Rightarrow> string \<Rightarrow> pyval list list \<Rightarrow> 'r" where
  "update_cells sheets_update_cells st spreadsheet_id sheet_name range_name vals =
     (let sid = (case spreadsheet_id of
                   None \<Rightarrow> current_spreadsheet_id st
                 | Some s \<Rightarrow> PStr s)
      in sheets_update_cells sid sheet_name range_name vals)"

definition batch_update_cells ::
  "(pyval \<Rightarrow> string \<Rightarrow> pydict list \<Rightarrow> 'r) \<Rightarrow> session \<Rightarrow> string option \<Rightarrow> string
    \<Rightarrow> pydict list \<Rightarrow> 'r" where
  "batch_update_cells sheets_batch_update_cells st spreadsheet_id sheet_name updates =
     (let sid = (case spreadsheet_id of
                   None \<Rightarrow> current_spreadsheet_id st
                 | Some s \<Rightarrow> PStr s)
      in sheets_batch_update_cells sid sheet_name updates)"

definition delete_rows ::
  "(pyval \<Rightarrow> string \<Rightarrow> int \<Rightarrow> int \<Rightarrow> 'r) \<Rightarrow> session \<Rightarrow> string option \<Rightarrow> string \<Rightarrow> int \<Rightarrow> int
    \<Rightarrow> 'r" where
  "delete_rows sheets_delete_rows st spreadsheet_id sheet_name start_index end_index =
     (let sid = (case spreadsheet_id of
                   None \<Rightarrow> current_spreadsheet_id st
                 | Some s \<Rightarrow> PStr s)
      in sheets_delete_rows sid sheet_name start_index end_index)"

definition delete_columns ::
  "(pyval \<Rightarrow> string \<Rightarrow> int \<Rightarrow> int \<Rightarrow> 'r) \<Rightarrow> session \<Rightarrow> string option \<Rightarrow> string \<Rightarrow> int \<Rightarrow> int
    \<Rightarrow> 'r" where
  "delete_columns sheets_delete_columns st spreadsheet_id sheet_name start_index end_index =
     (let sid = (case spreadsheet_id of
                   None \<Rightarrow> current_spreadsheet_id st
                 | Some s \<Rightarrow> PStr s)
      in sheets_delete_columns sid sheet_name start_index end_index)"

text \<open>\<open>create_chart\<close>: the delegate takes the identifier as its fourth argument.\<close>

definition create_chart ::
  "(string \<Rightarrow> string \<Rightarrow> string \<Rightarrow> pyval \<Rightarrow> string option \<Rightarrow> 'r) \<Rightarrow> session \<Rightarrow> string \<Rightarrow> string
    \<Rightarrow> string \<Rightarrow> string option \<Rightarrow> string option \<Rightarrow> 'r" where
  "create_chart sheets_create_chart st chart_type range_name sheet_name spreadsheet_id title =
     (let sid = (case spreadsheet_id of
                   None \<Rightarrow> current_spreadsheet_id st
                 | Some s \<Rightarrow> PStr s)
      in sheets_create_chart chart_type range_name sheet_name sid title)"

subsection \<open>add\_slide\_to\_presentation\<close>

text \<open>
  Lines 393 to 407, the shaping of the \<open>content\<close> argument. \<open>loads\<close> is \<open>json.loads\<close>.
  Only \<open>JSONDecodeError\<close> is caught here; \<open>str.replace\<close> exists on strings alone, so
  the call on line 407 raises \<open>AttributeError\<close> when the parsed value is not a string.
\<close>

definition slide_content :: "(string \<Rightarrow> exc + json) \<Rightarrow> pyval \<Rightarrow> exc + pyval" where
  "slide_content loads content =
     (case content of
        PStr s \<Rightarrow>
          (let stripped = str_strip_chars (\<lambda>c. c = BACKTICK) s in
           case loads stripped of
             Inr parsed_content \<Rightarrow>
               (case parsed_content of
                  JStr t \<Rightarrow> Inr (PStr (str_replace_nl t))
                | _ \<Rightarrow> Inl (no_attribute (json_type_name parsed_content) ''replace''))
           | Inl (JSONDecodeError m) \<Rightarrow> Inr (PStr (str_replace_nl stripped))
           | Inl e \<Rightarrow> Inl e)
      | _ \<Rightarrow> Inr content)"

text \<open>The envelope of the \<open>except Exception\<close> handler, lines 421 to 426.\<close>

definition error_envelope :: "exc \<Rightarrow> pydict" where
  "error_envelope e = [(''success'', PBool False), (''message'', PStr (''Error: '' @ exc_str e))]"

text \<open>
  Lines 410 to 426, from the outcome of \<open>slides.add_slide\<close>. \<open>result.get\<close> exists on
  dictionaries alone; on any other truthy result it raises \<open>AttributeError\<close>, which the
  handler turns into its envelope.
\<close>

definition slide_envelope :: "string \<Rightarrow> exc + pyval \<Rightarrow> pydict" where
  "slide_envelope title outcome =
     (case outcome of
        Inl e \<Rightarrow> error_envelope e
      | Inr result \<Rightarrow>
          if truthy result then
            (case result of
               PDict d \<Rightarrow>
                 if truthy (dict_get d ''success'') then
                   [(''success'', PBool True),
                    (''message'', PStr (''Added slide: '' @ title)),
                    (''slide_id'', dict_get d ''slide_id''),
                    (''dimensions'', dict_get d ''dimensions'')]
                 else [(''success'', PBool False), (''message'', PStr ''Failed to add slide'')]
             | _ \<Rightarrow> error_envelope (no_attribute (type_name result) ''get''))
          else [(''success'', PBool False), (''message'', PStr ''Failed to add slide'')])"

text \<open>\<open>add_slide_to_presentation\<close>: one call of the delegate, on the shaped content.\<close>

definition add_slide_to_presentation ::
  "(string \<Rightarrow> exc + json) \<Rightarrow> (string \<Rightarrow> string \<Rightarrow> pyval \<Rightarrow> exc + pyval) \<Rightarrow> string \<Rightarrow> string
    \<Rightarrow> pyval \<Rightarrow> pydict" where
  "add_slide_to_presentation loads slides_add_slide presentation_id title content =
     (case slide_content loads content of
        Inl e \<Rightarrow> error_envelope e
      | Inr content' \<Rightarrow> slide_envelope title (slides_add_slide presentation_id title content'))"

text \<open>A backslash directly followed by \<open>n\<close> somewhere in the text.\<close>

fun has_escaped_nl :: "string \<Rightarrow> bool" where
  "has_escaped_nl (a # b # rest) = ((a = BACKSLASH \<and> b = CHR ''n'') \<or> has_escaped_nl (b # rest))"
| "has_escaped_nl s = False"

text \<open>An outcome of a request that is an exception or an empty response.\<close>

definition failed :: "exc + pydict \<Rightarrow> bool" where
  "failed outcome = (case outcome of Inl e \<Rightarrow> True | Inr r \<Rightarrow> r = [])"

text \<open>An outcome of a delegate that is an exception or a falsy value.\<close>

definition falsy_outcome :: "exc + pyval \<Rightarrow> bool" where
  "falsy_outcome outcome = (case outcome of Inl e \<Rightarrow> True | Inr r \<Rightarrow> \<not> truthy r)"

text \<open>The failure envelope: \<open>success\<close> is \<open>False\<close> and \<open>message\<close> a non-empty string.\<close>

definition is_failure_envelope :: "pydict \<Rightarrow> bool" where
  "is_failure_envelope d =
     (case d of
        [(k1, PBool False), (k2, PStr m)] \<Rightarrow> k1 = ''success'' \<and> k2 = ''message'' \<and> m \<noteq> []
      | _ \<Rightarrow> False)"

text \<open>A configuration for the examples: the one \<open>MCPGD_FOLDER_ID=F1\<close> resolves to.\<close>

definition cfg0 :: config where
  "cfg0 = \<lparr>client_secret_path = ''/c.json'', token_path = ''/t.json'', folder_id = ''F1'',
           folders = [(''default'', ''F1'')], default_folder = ''default''\<rparr>"

section \<open>Properties of the configuration resolver\<close>

lemma parse_items_nonempty: "fs \<noteq> [] \<Longrightarrow> parse_items fs items \<noteq> []"
  by (induction items arbitrary: fs) (auto simp: Let_def split: prod.splits)

lemma hd_key: "fs \<noteq> [] \<Longrightarrow> map_of fs (fst (hd fs)) = Some (snd (hd fs))"
  by (cases fs) auto

lemma key_some: "k \<in> fst ` set fs \<Longrightarrow> \<exists>v. map_of fs k = Some v"
  by (metis domD dom_map_of_conv_image_fst)

lemma from_env_no_secret:
  "env ''MCPGD_CLIENT_SECRET_PATH'' = None \<or> env ''MCPGD_CLIENT_SECRET_PATH'' = Some [] \<Longrightarrow>
   from_env env h = Inl (ValueError ''MCPGD_CLIENT_SECRET_PATH environment variable is required'')"
  by (auto simp: from_env_def)

lemma from_env_no_folder:
  assumes "env ''MCPGD_CLIENT_SECRET_PATH'' = Some csp" "csp \<noteq> []"
    and "getenv_default env ''MCPGD_FOLDER_ID'' [] = []"
    and "parse_folders (getenv_default env ''MCPGD_FOLDERS'' []) = []"
  shows "from_env env h =
     Inl (ValueError ''MCPGD_FOLDERS or MCPGD_FOLDER_ID environment variable is required'')"
  using assms by (simp add: from_env_def)

lemma from_env_legacy_only:
  assumes "env ''MCPGD_CLIENT_SECRET_PATH'' = Some csp" "csp \<noteq> []"
    and "getenv_default env ''MCPGD_FOLDER_ID'' [] = fid" "fid \<noteq> []"
    and "parse_folders (getenv_default env ''MCPGD_FOLDERS'' []) = []"
  shows "\<exists>tp. from_env env h =
     Inr \<lparr>client_secret_path = csp, token_path = tp, folder_id = fid,
          folders = [(''default'', fid)], default_folder = ''default''\<rparr>"
  using assms by (simp add: from_env_def Let_def)

lemma from_env_both:
  assumes "env ''MCPGD_CLIENT_SECRET_PATH'' = Some csp" "csp \<noteq> []"
    and "getenv_default env ''MCPGD_FOLDER_ID'' [] = fid" "fid \<noteq> []"
    and "parse_folders (getenv_default env ''MCPGD_FOLDERS'' []) = fs" "fs \<noteq> []"
  shows "\<exists>tp. from_env env h =
     Inr \<lparr>client_secret_path = csp, token_path = tp, folder_id = fid,
          folders = fs, default_folder = getenv_default env ''MCPGD_DEFAULT_FOLDER'' []\<rparr>"
  using assms by (simp add: from_env_def Let_def)

lemma from_env_new_default:
  assumes "env ''MCPGD_CLIENT_SECRET_PATH'' = Some csp" "csp \<noteq> []"
    and "getenv_default env ''MCPGD_FOLDER_ID'' [] = []"
    and "parse_folders (getenv_default env ''MCPGD_FOLDERS'' []) = fs"
    and "getenv_default env ''MCPGD_DEFAULT_FOLDER'' [] = df"
    and "df \<noteq> []" "map_of fs df = Some v"
  shows "\<exists>tp. from_env env h =
     Inr \<lparr>client_secret_path = csp, token_path = tp, folder_id = v,
          folders = fs, default_folder = df\<rparr>"
proof -
  from assms(7) have "df \<in> fst ` set fs" by (auto dest!: map_of_SomeD intro: rev_image_eqI)
  moreover from this have "fs \<noteq> []" by auto
  ultimately show ?thesis using assms by (simp add: from_env_def Let_def)
qed

lemma from_env_new_first:
  assumes "env ''MCPGD_CLIENT_SECRET_PATH'' = Some csp" "csp \<noteq> []"
    and "getenv_default env ''MCPGD_FOLDER_ID'' [] = []"
    and "parse_folders (getenv_default env ''MCPGD_FOLDERS'' []) = (a, v) # rest"
    and "getenv_default env ''MCPGD_DEFAULT_FOLDER'' [] = df"
    and "df = [] \<or> df \<notin> fst ` set ((a, v) # rest)"
  shows "\<exists>tp. from_env env h =
     Inr \<lparr>client_secret_path = csp, token_path = tp, folder_id = v,
          folders = (a, v) # rest, default_folder = (if df = [] then a else df)\<rparr>"
  using assms by (auto simp add: from_env_def Let_def)

lemma map_of_parse_items:
  "map_of (parse_items fs items) = map_of (rev (entries_of items) @ fs)"
proof (induction items arbitrary: fs)
  case Nil
  show ?case by (simp add: entries_of_def)
next
  case (Cons item items)
  show ?case
  proof (cases "CHR '':'' \<in> set (str_strip item)")
    case True
    then show ?thesis
      using Cons.IH by (simp add: entries_of_def Let_def split: prod.splits add: update_conv' map_add_def fun_eq_iff option.case_eq_if)
  next
    case False
    then show ?thesis using Cons.IH by (simp add: entries_of_def)
  qed
qed

lemma distinct_parse_items:
  "distinct (map fst fs) \<Longrightarrow> distinct (map fst (parse_items fs items))"
  by (induction items arbitrary: fs) (auto simp: Let_def distinct_update split: prod.splits)

lemma list3_cases:
  obtains "s = []" | a where "s = [a]" | a b where "s = [a, b]"
  | a b c t where "s = a # b # c # t"
proof (cases s)
  case Nil
  then show ?thesis by (rule that(1))
next
  case c1: (Cons a s1)
  show ?thesis
  proof (cases s1)
    case Nil
    with c1 show ?thesis by (simp add: that(2))
  next
    case c2: (Cons b s2)
    show ?thesis
    proof (cases s2)
      case Nil
      with c1 c2 show ?thesis by (simp add: that(3))
    next
      case (Cons c t)
      with c1 c2 show ?thesis by (simp add: that(4))
    qed
  qed
qed

lemma all_space_cons1: "p1 a \<Longrightarrow> all_space p1 p2 p3 r \<Longrightarrow> all_space p1 p2 p3 (a # r)"
  by (cases r rule: list3_cases) auto

lemma all_space_cons2: "p2 a b \<Longrightarrow> all_space p1 p2 p3 r \<Longrightarrow> all_space p1 p2 p3 (a # b # r)"
  by (cases r) auto

lemma all_space_cons3: "p3 a b c \<Longrightarrow> all_space p1 p2 p3 r \<Longrightarrow> all_space p1 p2 p3 (a # b # c # r)"
  by simp

lemma strip_front_decomp: "\<exists>w. s = w @ strip_front p1 p2 p3 s \<and> all_space p1 p2 p3 w"
proof (induction p1 p2 p3 s rule: strip_front.induct)
  case (1 p1 p2 p3 a b c s)
  show ?case
  proof (cases "p1 a")
    case True
    with 1(1) obtain w where "b # c # s = w @ strip_front p1 p2 p3 (b # c # s)"
      "all_space p1 p2 p3 w" by blast
    with True have "a # b # c # s = (a # w) @ strip_front p1 p2 p3 (a # b # c # s)
      \<and> all_space p1 p2 p3 (a # w)" by (simp add: all_space_cons1)
    then show ?thesis by blast
  next
    case n1: False
    show ?thesis
    proof (cases "p2 a b")
      case True
      with n1 1(2) obtain w where "c # s = w @ strip_front p1 p2 p3 (c # s)"
        "all_space p1 p2 p3 w" by blast
      with n1 True have "a # b # c # s = (a # b # w) @ strip_front p1 p2 p3 (a # b # c # s)
        \<and> all_space p1 p2 p3 (a # b # w)" by (simp add: all_space_cons2)
      then show ?thesis by blast
    next
      case n2: False
      show ?thesis
      proof (cases "p3 a b c")
        case True
        with n1 n2 1(3) obtain w where "s = w @ strip_front p1 p2 p3 s"
          "all_space p1 p2 p3 w" by blast
        with n1 n2 True have "a # b # c # s = (a # b # c # w) @ strip_front p1 p2 p3 (a # b # c # s)
          \<and> all_space p1 p2 p3 (a # b # c # w)" by (simp add: all_space_cons3)
        then show ?thesis by blast
      next
        case False
        with n1 n2 have "a # b # c # s = [] @ strip_front p1 p2 p3 (a # b # c # s)
          \<and> all_space p1 p2 p3 []" by simp
        then show ?thesis by blast
      qed
    qed
  qed
next
  case (2 p1 p2 p3 a b)
  show ?case
  proof (cases "p1 a")
    case True
    show ?thesis
    proof (cases "p1 b")
      case True
      with \<open>p1 a\<close> have "[a, b] = [a, b] @ strip_front p1 p2 p3 [a, b] \<and> all_space p1 p2 p3 [a, b]"
        by simp
      then show ?thesis by blast
    next
      case False
      with \<open>p1 a\<close> have "[a, b] = [a] @ strip_front p1 p2 p3 [a, b] \<and> all_space p1 p2 p3 [a]"
        by simp
      then show ?thesis by blast
    qed
  next
    case n1: False
    show ?thesis
    proof (cases "p2 a b")
      case True
      with n1 have "[a, b] = [a, b] @ strip_front p1 p2 p3 [a, b] \<and> all_space p1 p2 p3 [a, b]"
        by simp
      then show ?thesis by blast
    next
      case False
      with n1 have "[a, b] = [] @ strip_front p1 p2 p3 [a, b] \<and> all_space p1 p2 p3 []"
        by simp
      then show ?thesis by blast
    qed
  qed
next
  case (3 p1 p2 p3 a)
  show ?case
  proof (cases "p1 a")
    case True
    then have "[a] = [a] @ strip_front p1 p2 p3 [a] \<and> all_space p1 p2 p3 [a]" by simp
    then show ?thesis by blast
  next
    case False
    then have "[a] = [] @ strip_front p1 p2 p3 [a] \<and> all_space p1 p2 p3 []" by simp
    then show ?thesis by blast
  qed
next
  case (4 p1 p2 p3)
  have "[] = [] @ strip_front p1 p2 p3 [] \<and> all_space p1 p2 p3 []" by simp
  then show ?case by blast
qed

lemma strip_front_no_start: "\<not> starts p1 p2 p3 (strip_front p1 p2 p3 s)"
  by (induction p1 p2 p3 s rule: strip_front.induct) auto

lemma starts_append: "starts p1 p2 p3 s \<Longrightarrow> starts p1 p2 p3 (s @ r)"
  by (cases s rule: list3_cases; cases r rule: list3_cases) auto

lemma all_space_append:
  "all_space p1 p2 p3 s \<Longrightarrow> all_space p1 p2 p3 t \<Longrightarrow> all_space p1 p2 p3 (s @ t)"
proof (induction p1 p2 p3 s rule: all_space.induct)
  case (1 p1 p2 p3 a b c s)
  then show ?case by auto
next
  case (2 p1 p2 p3 a b)
  then show ?case by (auto simp: all_space_cons1 all_space_cons2)
next
  case (3 p1 p2 p3 a)
  then show ?case by (auto simp: all_space_cons1)
next
  case (4 p1 p2 p3)
  then show ?case by simp
qed

lemma all_space_rev:
  "all_space p1 (\<lambda>b a. p2 a b) (\<lambda>c b a. p3 a b c) s \<Longrightarrow> all_space p1 p2 p3 (rev s)"
proof (induction p1 "\<lambda>b a. p2 a b" "\<lambda>c b a. p3 a b c" s rule: all_space.induct)
  case (1 p1 a b c s)
  from 1(4) consider
    (A) "p1 a" "all_space p1 (\<lambda>b a. p2 a b) (\<lambda>c b a. p3 a b c) (b # c # s)"
    | (B) "p2 b a" "all_space p1 (\<lambda>b a. p2 a b) (\<lambda>c b a. p3 a b c) (c # s)"
    | (C) "p3 c b a" "all_space p1 (\<lambda>b a. p2 a b) (\<lambda>c b a. p3 a b c) s"
    by auto
  then show ?case
  proof cases
    case A
    with 1(1) have "all_space p1 p2 p3 (rev (b # c # s))" by simp
    moreover from A have "all_space p1 p2 p3 [a]" by simp
    ultimately have "all_space p1 p2 p3 (rev (b # c # s) @ [a])" by (rule all_space_append)
    then show ?thesis by simp
  next
    case B
    with 1(2) have "all_space p1 p2 p3 (rev (c # s))" by simp
    moreover from B have "all_space p1 p2 p3 [b, a]" by simp
    ultimately have "all_space p1 p2 p3 (rev (c # s) @ [b, a])" by (rule all_space_append)
    then show ?thesis by simp
  next
    case C
    with 1(3) have "all_space p1 p2 p3 (rev s)" by simp
    moreover from C have "all_space p1 p2 p3 [c, b, a]" by simp
    ultimately have "all_space p1 p2 p3 (rev s @ [c, b, a])" by (rule all_space_append)
    then show ?thesis by simp
  qed
next
  case (2 p1 a b)
  then show ?case by auto
next
  case (3 p1 a)
  then show ?case by simp
next
  case (4 p1)
  then show ?case by simp
qed

lemma str_strip_spec:
  "\<exists>a b. t = a @ str_strip t @ b \<and> space_run a \<and> space_run b"
  "\<not> starts_with_space (str_strip t)"
  "\<not> ends_with_space (str_strip t)"
proof -
  let ?q2 = "\<lambda>b a. is_space2 a b" and ?q3 = "\<lambda>c b a. is_space3 a b c"
  obtain a where a: "t = a @ str_lstrip t" "space_run a"
    using strip_front_decomp [of t is_space is_space2 is_space3]
    by (auto simp: str_lstrip_def space_run_def)
  obtain w where w: "rev (str_lstrip t) = w @ strip_front is_space ?q2 ?q3 (rev (str_lstrip t))"
    "all_space is_space ?q2 ?q3 w"
    using strip_front_decomp [of "rev (str_lstrip t)" is_space ?q2 ?q3] by auto
  from w(1) have "str_lstrip t = rev (strip_front is_space ?q2 ?q3 (rev (str_lstrip t))) @ rev w"
    by (metis rev_append rev_rev_ident)
  then have b: "str_lstrip t = str_strip t @ rev w" by (simp add: str_strip_def str_rstrip_def)
  from w(2) have bw: "space_run (rev w)" unfolding space_run_def by (rule all_space_rev)
  from a(1) b have "t = a @ str_strip t @ rev w" by simp
  with a(2) bw show "\<exists>a b. t = a @ str_strip t @ b \<and> space_run a \<and> space_run b" by blast
  have "\<not> starts_with_space (str_lstrip t)"
    by (simp add: starts_with_space_def str_lstrip_def strip_front_no_start)
  with b show "\<not> starts_with_space (str_strip t)"
    unfolding starts_with_space_def by (metis starts_append)
  show "\<not> ends_with_space (str_strip t)"
    by (simp add: ends_with_space_def str_strip_def str_rstrip_def strip_front_no_start)
qed

lemma str_split_nonempty: "str_split c s \<noteq> []"
  by (induction s) (auto split: list.splits)

lemma str_join_split: "str_join c (str_split c s) = s"
proof (induction s)
  case Nil
  show ?case by simp
next
  case (Cons x xs)
  obtain w ws where w: "str_split c xs = w # ws"
    using str_split_nonempty [of c xs] by (cases "str_split c xs") auto
  show ?case
  proof (cases "x = c")
    case True
    with Cons w show ?thesis by simp
  next
    case False
    with Cons w show ?thesis by (cases ws) auto
  qed
qed

lemma str_split_pieces: "p \<in> set (str_split c s) \<Longrightarrow> c \<notin> set p"
proof (induction s arbitrary: p)
  case Nil
  then show ?case by simp
next
  case (Cons x xs)
  obtain w ws where w: "str_split c xs = w # ws"
    using str_split_nonempty [of c xs] by (cases "str_split c xs") auto
  show ?case
  proof (cases "x = c")
    case True
    with Cons w show ?thesis by auto
  next
    case False
    with Cons.prems w have "p = x # w \<or> p \<in> set ws" by simp
    then show ?thesis
    proof
      assume "p = x # w"
      moreover have "c \<notin> set w" using Cons.IH [of w] w by simp
      ultimately show ?thesis using False by simp
    next
      assume "p \<in> set ws"
      then show ?thesis using Cons.IH [of p] w by simp
    qed
  qed
qed

lemma str_split_first_spec:
  assumes "c \<in> set s"
  shows "s = fst (str_split_first c s) @ c # snd (str_split_first c s)"
    and "c \<notin> set (fst (str_split_first c s))"
proof -
  let ?d = "dropWhile (\<lambda>x. x \<noteq> c) s"
  from assms have ne: "?d \<noteq> []" by (simp add: dropWhile_eq_Nil_conv)
  then have "\<not> (hd ?d \<noteq> c)" by (rule hd_dropWhile)
  with ne have d: "?d = c # drop 1 ?d" by (cases ?d) auto
  have "s = takeWhile (\<lambda>x. x \<noteq> c) s @ ?d" by simp
  with d have "s = takeWhile (\<lambda>x. x \<noteq> c) s @ c # drop 1 ?d" by simp
  then show "s = fst (str_split_first c s) @ c # snd (str_split_first c s)"
    by (simp add: str_split_first_def)
  show "c \<notin> set (fst (str_split_first c s))"
    by (auto simp: str_split_first_def dest: set_takeWhileD)
qed

text \<open>
  C4: \<open>Config.from_env\<close> raises (a \<open>ValueError\<close>, the specification's ConfigError) when,
  and only when, the credential-path variable is absent or empty, or there is neither a
  legacy folder ID nor a parsed folder-alias entry; in every other case it returns a
  configuration.
\<close>

theorem C4_from_env_error_iff:
  "((\<exists>m. from_env env h = Inl (ValueError m)) \<longleftrightarrow> env_missing env)
   \<and> ((\<exists>cfg. from_env env h = Inr cfg) \<longleftrightarrow> \<not> env_missing env)"
proof (cases "env_missing env")
  case True
  then have "\<exists>m. from_env env h = Inl (ValueError m)"
    unfolding env_missing_def
    using from_env_no_secret [of env h] from_env_no_folder [of env _ h]
    by (cases "env ''MCPGD_CLIENT_SECRET_PATH''") fastforce+
  with True show ?thesis by auto
next
  case False
  then obtain csp where csp: "env ''MCPGD_CLIENT_SECRET_PATH'' = Some csp" "csp \<noteq> []"
    and some: "getenv_default env ''MCPGD_FOLDER_ID'' [] \<noteq> []
               \<or> parse_folders (getenv_default env ''MCPGD_FOLDERS'' []) \<noteq> []"
    unfolding env_missing_def by auto
  let ?fid = "getenv_default env ''MCPGD_FOLDER_ID'' []"
  let ?fs = "parse_folders (getenv_default env ''MCPGD_FOLDERS'' [])"
  let ?df = "getenv_default env ''MCPGD_DEFAULT_FOLDER'' []"
  have "\<exists>cfg. from_env env h = Inr cfg"
  proof (cases "?fid = []")
    case fid: False
    show ?thesis
    proof (cases "?fs = []")
      case True
      from from_env_legacy_only [OF csp refl fid this, of h] show ?thesis by (elim exE) simp
    next
      case False
      from from_env_both [OF csp refl fid refl this, of h] show ?thesis by (elim exE) simp
    qed
  next
    case fid: True
    with some obtain a v rest where fs: "?fs = (a, v) # rest"
      by (cases ?fs) auto
    show ?thesis
    proof (cases "?df \<noteq> [] \<and> ?df \<in> fst ` set ?fs")
      case True
      then have ne: "?df \<noteq> []" and mem: "?df \<in> fst ` set ?fs" by simp_all
      from key_some [OF mem] obtain w where w: "map_of ?fs ?df = Some w" ..
      from from_env_new_default [OF csp fid refl refl ne w, of h] show ?thesis by (elim exE) simp
    next
      case False
      then have "?df = [] \<or> ?df \<notin> fst ` set ((a, v) # rest)" using fs by simp
      from from_env_new_first [OF csp fid fs refl this, of h] show ?thesis by (elim exE) simp
    qed
  qed
  with False show ?thesis by auto
qed

theorem C4_from_env_error_iff_witness:
  "(\<exists>m. from_env Map.empty ''/home/u'' = Inl (ValueError m))
   \<and> (\<exists>m. from_env [''MCPGD_CLIENT_SECRET_PATH'' \<mapsto> ''/c.json'', ''MCPGD_FOLDERS'' \<mapsto> ''bad'']
             ''/home/u'' = Inl (ValueError m))
   \<and> (\<exists>cfg. from_env [''MCPGD_CLIENT_SECRET_PATH'' \<mapsto> ''/c.json'', ''MCPGD_FOLDER_ID'' \<mapsto> ''F1'']
             ''/home/u'' = Inr cfg)"
proof -
  let ?e2 = "[''MCPGD_CLIENT_SECRET_PATH'' \<mapsto> ''/c.json'', ''MCPGD_FOLDERS'' \<mapsto> ''bad'']"
  let ?e3 = "[''MCPGD_CLIENT_SECRET_PATH'' \<mapsto> ''/c.json'', ''MCPGD_FOLDER_ID'' \<mapsto> ''F1'']"
  have p: "parse_folders ''bad'' = []" "parse_folders [] = []" by code_simp+
  have 1: "env_missing Map.empty" by (simp add: env_missing_def)
  have 2: "env_missing ?e2"
    by (simp add: env_missing_def getenv_default_def p)
  have 3: "\<not> env_missing ?e3"
    by (simp add: env_missing_def getenv_default_def)
  from 1 have a: "\<exists>m. from_env Map.empty ''/home/u'' = Inl (ValueError m)"
    by (simp only: C4_from_env_error_iff [of Map.empty "''/home/u''"])
  from 2 have b: "\<exists>m. from_env ?e2 ''/home/u'' = Inl (ValueError m)"
    by (simp only: C4_from_env_error_iff [of ?e2 "''/home/u''"])
  from 3 have c: "\<exists>cfg. from_env ?e3 ''/home/u'' = Inr cfg"
    using C4_from_env_error_iff [of ?e3 "''/home/u''"] by (elim conjE) (simp only: not_False_eq_True)
  from a b c show ?thesis by (intro conjI)
qed

text \<open>
  C5: when the credential path is set, the legacy folder ID is unset (or empty) and the
  folders variable parses to at least one entry, the configuration is returned with the
  parsed folders; its \<open>folder_id\<close> is \<open>folders[default_folder]\<close> when the
  default-folder variable is non-empty and an alias of \<open>folders\<close>, and otherwise the ID
  of the first entry, the default alias becoming the first alias when it was empty. The
  witness is the instance \<open>a:1,b:2\<close> of the claim.
\<close>

theorem C5_backfill:
  assumes "env ''MCPGD_CLIENT_SECRET_PATH'' = Some csp" and "csp \<noteq> []"
    and "getenv_default env ''MCPGD_FOLDER_ID'' [] = []"
    and "parse_folders (getenv_default env ''MCPGD_FOLDERS'' []) = fs" and "fs \<noteq> []"
    and "getenv_default env ''MCPGD_DEFAULT_FOLDER'' [] = df"
  shows "\<exists>cfg. from_env env h = Inr cfg \<and> folders cfg = fs
     \<and> (if df \<noteq> [] \<and> df \<in> fst ` set fs
         then map_of fs df = Some (folder_id cfg) \<and> default_folder cfg = df
         else folder_id cfg = snd (hd fs)
              \<and> default_folder cfg = (if df = [] then fst (hd fs) else df))"
proof (cases "df \<noteq> [] \<and> df \<in> fst ` set fs")
  case True
  then have ne: "df \<noteq> []" and mem: "df \<in> fst ` set fs" by simp_all
  from key_some [OF mem] obtain w where w: "map_of fs df = Some w" ..
  from from_env_new_default [OF assms(1-4) assms(6) ne w, of h]
  obtain tp where eq: "from_env env h =
     Inr \<lparr>client_secret_path = csp, token_path = tp, folder_id = w,
          folders = fs, default_folder = df\<rparr>" ..
  show ?thesis using True w by (simp add: eq)
next
  case False
  from assms(5) obtain a v rest where fs: "fs = (a, v) # rest" by (cases fs) auto
  from False have d: "df = [] \<or> df \<notin> fst ` set ((a, v) # rest)" using fs by simp
  from from_env_new_first [OF assms(1-3) assms(4) [unfolded fs] assms(6) d, of h]
  obtain tp where eq: "from_env env h =
     Inr \<lparr>client_secret_path = csp, token_path = tp, folder_id = v,
          folders = (a, v) # rest, default_folder = (if df = [] then a else df)\<rparr>" ..
  have "\<not> (df \<noteq> [] \<and> df \<in> fst ` set fs)" by (rule False)
  then show ?thesis unfolding eq fs by auto
qed

theorem C5_backfill_witness:
  "\<exists>cfg. from_env [''MCPGD_CLIENT_SECRET_PATH'' \<mapsto> ''/c.json'', ''MCPGD_FOLDERS'' \<mapsto> ''a:1,b:2'']
            ''/home/u'' = Inr cfg
     \<and> folders cfg = [(''a'', ''1''), (''b'', ''2'')]
     \<and> folder_id cfg = ''1'' \<and> default_folder cfg = ''a''"
proof -
  let ?env = "[''MCPGD_CLIENT_SECRET_PATH'' \<mapsto> ''/c.json'', ''MCPGD_FOLDERS'' \<mapsto> ''a:1,b:2'']"
  have p: "parse_folders ''a:1,b:2'' = [(''a'', ''1''), (''b'', ''2'')]" by code_simp
  have 1: "?env ''MCPGD_CLIENT_SECRET_PATH'' = Some ''/c.json''" by simp
  have 2: "''/c.json'' \<noteq> []" by simp
  have 3: "getenv_default ?env ''MCPGD_FOLDER_ID'' [] = []" by (simp add: getenv_default_def)
  have 4: "parse_folders (getenv_default ?env ''MCPGD_FOLDERS'' []) = [(''a'', ''1''), (''b'', ''2'')]"
    by (simp add: getenv_default_def p)
  have 5: "[(''a'', ''1''), (''b'', ''2'')] \<noteq> ([] :: (string \<times> string) list)" by simp
  have 6: "getenv_default ?env ''MCPGD_DEFAULT_FOLDER'' [] = []" by (simp add: getenv_default_def)
  from C5_backfill [OF 1 2 3 4 5 6, of "''/home/u''"] show ?thesis by simp
qed

text \<open>
  C6: the dictionary built by the loop of \<open>Config.from_env\<close> is the mapping the
  specification's rule describes (split on commas, trim, split on the first colon, trim
  both, skip the entries without a colon, later aliases overwrite earlier ones), and its
  keys are unique; no error is possible, the result being a dictionary for every input.
  The three operations are what the rule says: the pieces of the split hold no comma
  and, joined by commas, are the raw text; a trimmed text is the text without a run of
  whitespace at each end, and neither starts nor ends with whitespace; the split of an
  entry is at its first colon. \<open>a:1,bad,c:3\<close> gives \<open>{a: 1, c: 3}\<close>; the other
  instances have spaces, a second colon, a repeated alias and whitespace beyond ASCII
  (\<open>U+00A0\<close>, \<open>U+3000\<close>).
\<close>

theorem C6_parse_folders:
  "map_of (parse_folders raw) = spec_parse_folders raw
   \<and> distinct (map fst (parse_folders raw))
   \<and> str_join (CHR '','') (str_split (CHR '','') raw) = raw
   \<and> (\<forall>p \<in> set (str_split (CHR '','') raw). CHR '','' \<notin> set p)
   \<and> (\<exists>a b. t = a @ str_strip t @ b \<and> space_run a \<and> space_run b)
   \<and> \<not> starts_with_space (str_strip t)
   \<and> \<not> ends_with_space (str_strip t)
   \<and> (CHR '':'' \<in> set e \<longrightarrow>
        e = fst (str_split_first (CHR '':'') e) @ CHR '':'' # snd (str_split_first (CHR '':'') e)
        \<and> CHR '':'' \<notin> set (fst (str_split_first (CHR '':'') e)))
   \<and> parse_folders ''a:1,bad,c:3'' = [(''a'', ''1''), (''c'', ''3'')]
   \<and> parse_folders '' a : 1 ,bad, b:2:3 ,a: 9'' = [(''a'', ''9''), (''b'', ''2:3'')]
   \<and> parse_folders ([CHR 0xC2, CHR 0xA0] @ ''a:1'' @ [CHR 0xE3, CHR 0x80, CHR 0x80] @ '',b : 2'')
       = [(''a'', ''1''), (''b'', ''2'')]"
proof -
  have e: "str_strip [] = []" by (simp add: str_strip_def str_lstrip_def str_rstrip_def)
  have 1: "map_of (parse_folders raw) = spec_parse_folders raw"
    by (cases raw)
      (simp_all add: parse_folders_def spec_parse_folders_def map_of_parse_items entries_of_def e)
  have 2: "distinct (map fst (parse_folders raw))"
    by (simp add: parse_folders_def distinct_parse_items)
  have 3: "str_join (CHR '','') (str_split (CHR '','') raw) = raw" by (rule str_join_split)
  have 4: "\<forall>p \<in> set (str_split (CHR '','') raw). CHR '','' \<notin> set p"
    by (intro ballI) (rule str_split_pieces)
  have 5: "\<exists>a b. t = a @ str_strip t @ b \<and> space_run a \<and> space_run b"
    by (rule str_strip_spec)
  have 6: "\<not> starts_with_space (str_strip t)" by (rule str_strip_spec)
  have 7: "\<not> ends_with_space (str_strip t)" by (rule str_strip_spec)
  have 8: "CHR '':'' \<in> set e \<longrightarrow>
        e = fst (str_split_first (CHR '':'') e) @ CHR '':'' # snd (str_split_first (CHR '':'') e)
        \<and> CHR '':'' \<notin> set (fst (str_split_first (CHR '':'') e))"
    using str_split_first_spec [of "CHR '':''" e] by (intro impI conjI)
  have 9: "parse_folders ''a:1,bad,c:3'' = [(''a'', ''1''), (''c'', ''3'')]"
    by code_simp
  have 10: "parse_folders '' a : 1 ,bad, b:2:3 ,a: 9'' = [(''a'', ''9''), (''b'', ''2:3'')]"
    by code_simp
  have 11: "parse_folders ([CHR 0xC2, CHR 0xA0] @ ''a:1'' @ [CHR 0xE3, CHR 0x80, CHR 0x80] @ '',b : 2'')
       = [(''a'', ''1''), (''b'', ''2'')]"
    by code_simp
  from 1 2 3 4 5 6 7 8 9 10 11 show ?thesis by (intro conjI)
qed

theorem C6_parse_folders_witness:
  "map_of (parse_folders ''x:1,bad, x : 2:3 '') = spec_parse_folders ''x:1,bad, x : 2:3 ''
   \<and> CHR '','' \<notin> set '' x : 2:3 ''
   \<and> \<not> starts_with_space (str_strip '' x '')
   \<and> ''x : 2:3'' = fst (str_split_first (CHR '':'') ''x : 2:3'') @ CHR '':''
                      # snd (str_split_first (CHR '':'') ''x : 2:3'')
   \<and> CHR '':'' \<notin> set (fst (str_split_first (CHR '':'') ''x : 2:3''))"
proof -
  note c = C6_parse_folders [of "''x:1,bad, x : 2:3 ''" "'' x ''" "''x : 2:3''"]
  have m: "'' x : 2:3 '' \<in> set (str_split (CHR '','') ''x:1,bad, x : 2:3 '')" by code_simp
  have k: "CHR '':'' \<in> set ''x : 2:3''" by simp
  from c have 1: "map_of (parse_folders ''x:1,bad, x : 2:3 '') = spec_parse_folders ''x:1,bad, x : 2:3 ''"
    by (elim conjE)
  from c have "\<forall>p \<in> set (str_split (CHR '','') ''x:1,bad, x : 2:3 ''). CHR '','' \<notin> set p"
    by (elim conjE)
  then have 2: "CHR '','' \<notin> set '' x : 2:3 ''" using m by (rule bspec)
  from c have 3: "\<not> starts_with_space (str_strip '' x '')" by (elim conjE)
  from c have "CHR '':'' \<in> set ''x : 2:3'' \<longrightarrow>
        ''x : 2:3'' = fst (str_split_first (CHR '':'') ''x : 2:3'') @ CHR '':''
                        # snd (str_split_first (CHR '':'') ''x : 2:3'')
        \<and> CHR '':'' \<notin> set (fst (str_split_first (CHR '':'') ''x : 2:3''))"
    by (elim conjE)
  with k have 4: "''x : 2:3'' = fst (str_split_first (CHR '':'') ''x : 2:3'') @ CHR '':''
                        # snd (str_split_first (CHR '':'') ''x : 2:3'')
        \<and> CHR '':'' \<notin> set (fst (str_split_first (CHR '':'') ''x : 2:3''))"
    by (rule mp [rotated])
  from 1 2 3 4 show ?thesis by (intro conjI) (elim conjE; assumption)+
qed

text \<open>
  C7, as amended: for every non-empty string that is not a key of \<open>folders\<close>,
  \<open>Config.get_folder_id\<close> returns its input unchanged; for the empty string, as for an
  absent argument, it returns the configured default folder ID.
\<close>

theorem C7_get_folder_id_raw:
  "(f \<noteq> [] \<and> f \<notin> fst ` set (folders cfg) \<longrightarrow> get_folder_id cfg (Some f) = f)
   \<and> get_folder_id cfg (Some []) = folder_id cfg
   \<and> get_folder_id cfg None = folder_id cfg"
proof (intro conjI impI)
  assume a: "f \<noteq> [] \<and> f \<notin> fst ` set (folders cfg)"
  then have "map_of (folders cfg) f = None"
    by (simp add: map_of_eq_None_iff)
  with a show "get_folder_id cfg (Some f) = f" by (simp add: get_folder_id_def)
next
  show "get_folder_id cfg (Some []) = folder_id cfg" by (simp add: get_folder_id_def)
next
  show "get_folder_id cfg None = folder_id cfg" by (simp add: get_folder_id_def)
qed

theorem C7_get_folder_id_raw_witness:
  "get_folder_id \<lparr>client_secret_path = ''/c.json'', token_path = ''/t.json'', folder_id = ''W1'',
      folders = [(''work'', ''W1''), (''home'', ''H1'')], default_folder = ''work''\<rparr>
     (Some ''unknown-raw-id'') = ''unknown-raw-id''
   \<and> get_folder_id \<lparr>client_secret_path = ''/c.json'', token_path = ''/t.json'', folder_id = ''W1'',
      folders = [(''work'', ''W1''), (''home'', ''H1'')], default_folder = ''work''\<rparr>
     (Some []) = ''W1''
   \<and> get_folder_id \<lparr>client_secret_path = ''/c.json'', token_path = ''/t.json'', folder_id = ''W1'',
      folders = [(''work'', ''W1''), (''home'', ''H1'')], default_folder = ''work''\<rparr>
     None = ''W1''"
proof -
  let ?cfg = "\<lparr>client_secret_path = ''/c.json'', token_path = ''/t.json'', folder_id = ''W1'',
      folders = [(''work'', ''W1''), (''home'', ''H1'')], default_folder = ''work''\<rparr>"
  have h: "''unknown-raw-id'' \<noteq> [] \<and> ''unknown-raw-id'' \<notin> fst ` set (folders ?cfg)" by simp
  from C7_get_folder_id_raw [of "''unknown-raw-id''" ?cfg] h show ?thesis by simp
qed

text \<open>
  C7 as stated fails at the empty string, which is not a key of \<open>folders\<close> here: the
  guard \<open>if not folder\<close> answers with the default folder ID \<open>F1\<close>, not with the input.
\<close>

theorem C7_empty_input_counterexample:
  "[] \<notin> fst ` set (folders \<lparr>client_secret_path = ''/c.json'', token_path = ''/t.json'',
        folder_id = ''F1'', folders = [(''default'', ''F1'')], default_folder = ''default''\<rparr>)
   \<and> get_folder_id \<lparr>client_secret_path = ''/c.json'', token_path = ''/t.json'',
        folder_id = ''F1'', folders = [(''default'', ''F1'')], default_folder = ''default''\<rparr> (Some [])
       = ''F1''
   \<and> ''F1'' \<noteq> ([] :: string)"
  by (simp add: get_folder_id_def)

section \<open>Properties of the tools\<close>

lemma dict_get_missing: "k \<notin> fst ` set d \<Longrightarrow> dict_get d k = PNone"
  using map_of_eq_None_iff [of d k] by (simp add: dict_get_def)

lemma dict_get_Nil: "dict_get [] k = PNone"
  by (simp add: dict_get_def)

lemma new_id_stored:
  assumes "dict_get result ''spreadsheetId'' = PStr S
           \<or> (\<not> truthy (dict_get result ''spreadsheetId'') \<and> dict_get result ''id'' = PStr S)"
    and "S \<noteq> []"
  shows "result \<noteq> []"
    and "py_or (dict_get result ''spreadsheetId'') (dict_get result ''id'') = PStr S"
proof -
  show "result \<noteq> []" using assms by (auto simp: dict_get_Nil)
  show "py_or (dict_get result ''spreadsheetId'') (dict_get result ''id'') = PStr S"
    using assms by (auto simp: py_or_def)
qed

lemma create_spreadsheet_stores:
  assumes "drive_create title folder = result" "result \<noteq> []"
    and "py_or (dict_get result ''spreadsheetId'') (dict_get result ''id'') = PStr S" "S \<noteq> []"
  shows "create_spreadsheet drive_create st title folder
         = (result, st\<lparr>current_spreadsheet_id := PStr S\<rparr>)"
  using assms by (simp add: create_spreadsheet_def Let_def)

lemma create_spreadsheet_from_template_stores:
  assumes "drive_create template_id title folder = result" "result \<noteq> []"
    and "py_or (dict_get result ''spreadsheetId'') (dict_get result ''id'') = PStr S" "S \<noteq> []"
  shows "create_spreadsheet_from_template drive_create st template_id title folder
         = (result, st\<lparr>current_spreadsheet_id := PStr S\<rparr>)"
  using assms by (simp add: create_spreadsheet_from_template_def Let_def)

lemma create_spreadsheet_from_existing_stores:
  assumes "drive_create source_id title folder = result" "result \<noteq> []"
    and "py_or (dict_get result ''spreadsheetId'') (dict_get result ''id'') = PStr S" "S \<noteq> []"
  shows "create_spreadsheet_from_existing drive_create st source_id title folder
         = (result, st\<lparr>current_spreadsheet_id := PStr S\<rparr>)"
  using assms by (simp add: create_spreadsheet_from_existing_def Let_def)

lemma no_id_falsy:
  assumes "result = [] \<or> (''spreadsheetId'' \<notin> fst ` set result \<and> ''id'' \<notin> fst ` set result)"
  shows "result = []
         \<or> \<not> truthy (py_or (dict_get result ''spreadsheetId'') (dict_get result ''id''))"
  using assms by (auto simp: py_or_def dict_get_missing)

lemma create_spreadsheet_keeps:
  assumes "drive_create title folder = result"
    and "result = []
         \<or> \<not> truthy (py_or (dict_get result ''spreadsheetId'') (dict_get result ''id''))"
  shows "create_spreadsheet drive_create st title folder = (result, st)"
  using assms by (auto simp add: create_spreadsheet_def Let_def)

lemma create_spreadsheet_from_template_keeps:
  assumes "drive_create template_id title folder = result"
    and "result = []
         \<or> \<not> truthy (py_or (dict_get result ''spreadsheetId'') (dict_get result ''id''))"
  shows "create_spreadsheet_from_template drive_create st template_id title folder = (result, st)"
  using assms by (auto simp add: create_spreadsheet_from_template_def Let_def)

lemma create_spreadsheet_from_existing_keeps:
  assumes "drive_create source_id title folder = result"
    and "result = []
         \<or> \<not> truthy (py_or (dict_get result ''spreadsheetId'') (dict_get result ''id''))"
  shows "create_spreadsheet_from_existing drive_create st source_id title folder = (result, st)"
  using assms by (auto simp add: create_spreadsheet_from_existing_def Let_def)

lemma replace_nl_id: "\<not> has_escaped_nl s \<Longrightarrow> str_replace_nl s = s"
  by (induction s rule: str_replace_nl.induct) auto

lemma replace_nl_complete: "\<not> has_escaped_nl (str_replace_nl s)"
proof (induction s rule: str_replace_nl.induct)
  case (1 a b rest)
  show ?case
  proof (cases "a = BACKSLASH \<and> b = CHR ''n''")
    case True
    with 1 show ?thesis by (cases "str_replace_nl rest") auto
  next
    case False
    with 1 show ?thesis
      by (cases rest) (auto split: if_splits)
  qed
qed simp_all

lemma strip_chars_none: "\<forall>c \<in> set s. \<not> p c \<Longrightarrow> str_strip_chars p s = s"
proof -
  assume a: "\<forall>c \<in> set s. \<not> p c"
  then have 1: "dropWhile p s = s" by (cases s) auto
  have "rev s = [] \<or> \<not> p (hd (rev s))"
  proof (cases "rev s")
    case Nil
    then show ?thesis by simp
  next
    case (Cons x xs)
    then have "x \<in> set s" by (metis list.set_intros(1) set_rev)
    with a Cons show ?thesis by simp
  qed
  then have 2: "dropWhile p (rev s) = rev s" by (cases "rev s") auto
  from 1 2 show ?thesis by (simp add: str_strip_chars_def)
qed

lemma strip_chars_decomp:
  "\<exists>a b. s = a @ str_strip_chars p s @ b \<and> (\<forall>c \<in> set a. p c) \<and> (\<forall>c \<in> set b. p c)"
proof -
  let ?x = "dropWhile p s"
  have 1: "s = takeWhile p s @ ?x" by simp
  have "rev ?x = takeWhile p (rev ?x) @ dropWhile p (rev ?x)" by simp
  then have "?x = rev (dropWhile p (rev ?x)) @ rev (takeWhile p (rev ?x))"
    by (metis rev_append rev_rev_ident)
  then have 2: "?x = str_strip_chars p s @ rev (takeWhile p (rev ?x))"
    by (simp add: str_strip_chars_def)
  have 3: "\<forall>c \<in> set (takeWhile p s). p c" by (auto dest: set_takeWhileD)
  have 4: "\<forall>c \<in> set (rev (takeWhile p (rev ?x))). p c" by (auto dest: set_takeWhileD)
  from 1 2 have "s = takeWhile p s @ str_strip_chars p s @ rev (takeWhile p (rev ?x))" by simp
  with 3 4 show ?thesis by blast
qed

lemma strip_chars_ends:
  "str_strip_chars p s = [] \<or> (\<not> p (hd (str_strip_chars p s)) \<and> \<not> p (last (str_strip_chars p s)))"
proof (cases "str_strip_chars p s = []")
  case True
  then show ?thesis by simp
next
  case False
  let ?x = "dropWhile p s"
  let ?y = "dropWhile p (rev ?x)"
  from False have y: "?y \<noteq> []" by (simp add: str_strip_chars_def)
  then have "\<not> p (hd ?y)" by (rule hd_dropWhile)
  then have l: "\<not> p (last (str_strip_chars p s))"
    using y by (simp add: str_strip_chars_def last_rev)
  have x: "?x \<noteq> []"
  proof
    assume "?x = []"
    then have "?y = []" by (simp only: rev.simps dropWhile.simps)
    with y show False by contradiction
  qed
  then have hx: "\<not> p (hd ?x)" by (rule hd_dropWhile)
  have "rev ?x = takeWhile p (rev ?x) @ ?y" by simp
  then have "?x = rev ?y @ rev (takeWhile p (rev ?x))" by (metis rev_append rev_rev_ident)
  then have "hd ?x = hd (rev ?y)" using y by (metis hd_append2 rev_is_Nil_conv)
  with hx have "\<not> p (hd (str_strip_chars p s))" by (simp add: str_strip_chars_def)
  with l show ?thesis by simp
qed

lemma slide_content_str:
  "loads (str_strip_chars (\<lambda>c. c = BACKTICK) s) = Inr (JStr t) \<Longrightarrow>
   slide_content loads (PStr s) = Inr (PStr (str_replace_nl t))"
  by (simp add: slide_content_def)

lemma slide_content_text:
  "loads (str_strip_chars (\<lambda>c. c = BACKTICK) s) = Inl (JSONDecodeError m) \<Longrightarrow>
   slide_content loads (PStr s) = Inr (PStr (str_replace_nl (str_strip_chars (\<lambda>c. c = BACKTICK) s)))"
  by (simp add: slide_content_def)

lemma error_envelope_failure: "is_failure_envelope (error_envelope e)"
  by (simp add: is_failure_envelope_def error_envelope_def)

lemma slide_envelope_failure:
  "falsy_outcome outcome \<Longrightarrow> is_failure_envelope (slide_envelope title outcome)"
proof (cases outcome)
  case (Inl e)
  then show ?thesis by (simp add: slide_envelope_def error_envelope_failure)
next
  case (Inr r)
  assume "falsy_outcome outcome"
  with Inr have "\<not> truthy r" by (simp add: falsy_outcome_def)
  with Inr show ?thesis by (simp add: slide_envelope_def is_failure_envelope_def)
qed

text \<open>
  JSON that parses to anything but a string: \<open>content.replace\<close> on line 407 raises
  \<open>AttributeError\<close>, the delegate is not called, and the handler's envelope is the
  result. The text \<open>123\<close> is such a content.
\<close>

lemma slide_content_non_string:
  assumes "loads (str_strip_chars (\<lambda>c. c = BACKTICK) s) = Inr v" and "\<forall>t. v \<noteq> JStr t"
  shows "slide_content loads (PStr s) = Inl (no_attribute (json_type_name v) ''replace'')"
    and "is_failure_envelope
           (add_slide_to_presentation loads slides_add_slide presentation_id title (PStr s))"
proof -
  show c: "slide_content loads (PStr s) = Inl (no_attribute (json_type_name v) ''replace'')"
    using assms by (cases v) (simp_all add: slide_content_def)
  show "is_failure_envelope
           (add_slide_to_presentation loads slides_add_slide presentation_id title (PStr s))"
    by (simp add: add_slide_to_presentation_def c error_envelope_failure)
qed

lemma slide_content_number:
  "add_slide_to_presentation json_loads slides_add_slide ''P1'' ''Agenda'' (PStr ''123'')
   = [(''success'', PBool False),
      (''message'', PStr (''Error: '' @ SQUOTE # ''int'' @ SQUOTE # '' object has no attribute ''
                          @ SQUOTE # ''replace'' @ [SQUOTE]))]"
proof -
  have "json_loads (str_strip_chars (\<lambda>c. c = BACKTICK) ''123'') = Inr (JInt 123)" by code_simp
  then have "slide_content json_loads (PStr ''123'') = Inl (no_attribute ''int'' ''replace'')"
    by (simp add: slide_content_def)
  then show ?thesis
    by (simp add: add_slide_to_presentation_def error_envelope_def no_attribute_def)
qed

text \<open>
  C1, as amended. For \<open>copy_file\<close>, \<open>rename_file\<close> and the three
  spreadsheet-creation tools, whose delegate is the Drive layer: when the Workspace API
  request raises an exception or answers with an empty result, the tool returns the empty
  dictionary (and the creation tools leave the current spreadsheet identifier as it was).
  For \<open>add_slide_to_presentation\<close>: when the delegate raises or returns a falsy
  result, the tool returns \<open>{success: False, message: m}\<close> with a non-empty \<open>m\<close>. No
  exception leaves these tools: each is a function to its result.
\<close>

theorem C1_failure_results:
  "(failed (api_copy file_id [(''name'', PStr new_name)]) \<longrightarrow>
      copy_file (drive_copy_file api_copy) file_id new_name = [])
   \<and> (failed (api_update file_id [(''name'', PStr new_name)]) \<longrightarrow>
      rename_file (drive_rename_file api_update) file_id new_name = [])
   \<and> (failed (api_create
         [(''properties'', PDict [(''title'', PStr title)]),
          (''sheets'', PList [PDict [(''properties'', PDict [(''title'', PStr ''Sheet1'')])]])]) \<longrightarrow>
      create_spreadsheet (drive_create_spreadsheet cfg api_create) st title folder = ([], st))
   \<and> (failed (api_copy_t template_id
         [(''name'', PStr title), (''parents'', PList [PStr (get_folder_id cfg folder)])]) \<longrightarrow>
      create_spreadsheet_from_template (drive_create_spreadsheet_from_template cfg api_copy_t)
        st template_id title folder = ([], st))
   \<and> (failed (api_copy_e source_id
         [(''name'', PStr title), (''parents'', PList [PStr (get_folder_id cfg folder)])]) \<longrightarrow>
      create_spreadsheet_from_existing (drive_create_spreadsheet_from_existing cfg api_copy_e)
        st source_id title folder = ([], st))
   \<and> (slide_content loads content = Inr c
       \<and> falsy_outcome (slides_add_slide presentation_id slide_title c) \<longrightarrow>
      is_failure_envelope
        (add_slide_to_presentation loads slides_add_slide presentation_id slide_title content))"
proof (intro conjI impI)
  assume "failed (api_copy file_id [(''name'', PStr new_name)])"
  then show "copy_file (drive_copy_file api_copy) file_id new_name = []"
    by (simp add: failed_def copy_file_def drive_copy_file_def split: sum.splits)
next
  assume "failed (api_update file_id [(''name'', PStr new_name)])"
  then show "rename_file (drive_rename_file api_update) file_id new_name = []"
    by (simp add: failed_def rename_file_def drive_rename_file_def split: sum.splits)
next
  assume "failed (api_create
         [(''properties'', PDict [(''title'', PStr title)]),
          (''sheets'', PList [PDict [(''properties'', PDict [(''title'', PStr ''Sheet1'')])]])])"
  then have "drive_create_spreadsheet cfg api_create title folder = []"
    by (simp add: failed_def drive_create_spreadsheet_def split: sum.splits)
  then show "create_spreadsheet (drive_create_spreadsheet cfg api_create) st title folder = ([], st)"
    by (simp add: create_spreadsheet_def)
next
  assume "failed (api_copy_t template_id
         [(''name'', PStr title), (''parents'', PList [PStr (get_folder_id cfg folder)])])"
  then have "drive_create_spreadsheet_from_template cfg api_copy_t template_id title folder = []"
    by (simp add: failed_def drive_create_spreadsheet_from_template_def split: sum.splits)
  then show "create_spreadsheet_from_template (drive_create_spreadsheet_from_template cfg api_copy_t)
        st template_id title folder = ([], st)"
    by (simp add: create_spreadsheet_from_template_def)
next
  assume "failed (api_copy_e source_id
         [(''name'', PStr title), (''parents'', PList [PStr (get_folder_id cfg folder)])])"
  then have "drive_create_spreadsheet_from_existing cfg api_copy_e source_id title folder = []"
    by (simp add: failed_def drive_create_spreadsheet_from_existing_def split: sum.splits)
  then show "create_spreadsheet_from_existing (drive_create_spreadsheet_from_existing cfg api_copy_e)
        st source_id title folder = ([], st)"
    by (simp add: create_spreadsheet_from_existing_def)
next
  assume "slide_content loads content = Inr c
       \<and> falsy_outcome (slides_add_slide presentation_id slide_title c)"
  then show "is_failure_envelope
        (add_slide_to_presentation loads slides_add_slide presentation_id slide_title content)"
    by (simp add: add_slide_to_presentation_def slide_envelope_failure)
qed

theorem C1_failure_results_witness:
  "copy_file (drive_copy_file (\<lambda>file_id body. Inl (ApiError ''File not found''))) ''F1'' ''copy'' = []
   \<and> rename_file (drive_rename_file (\<lambda>file_id body. Inr [])) ''F1'' ''new'' = []
   \<and> create_spreadsheet (drive_create_spreadsheet cfg0 (\<lambda>body. Inl (ApiError ''quota'')))
        initial_session ''Q1'' None = ([], initial_session)
   \<and> create_spreadsheet_from_template
        (drive_create_spreadsheet_from_template cfg0 (\<lambda>file_id body. Inl (ApiError ''quota'')))
        initial_session ''T1'' ''Q1'' None = ([], initial_session)
   \<and> create_spreadsheet_from_existing
        (drive_create_spreadsheet_from_existing cfg0 (\<lambda>file_id body. Inr []))
        initial_session ''E1'' ''Q1'' None = ([], initial_session)
   \<and> is_failure_envelope
        (add_slide_to_presentation json_loads (\<lambda>presentation_id title content. Inl (ApiError ''boom''))
           ''P1'' ''Agenda'' (PStr ''hello''))"
proof -
  have c: "slide_content json_loads (PStr ''hello'') = Inr (PStr ''hello'')" by code_simp
  show ?thesis
    using c C1_failure_results [where api_copy = "\<lambda>file_id body. Inl (ApiError ''File not found'')"
        and file_id = "''F1''" and new_name = "''copy''"]
      C1_failure_results [where api_update = "\<lambda>file_id body. Inr []"
        and file_id = "''F1''" and new_name = "''new''"]
      C1_failure_results [where api_create = "\<lambda>body. Inl (ApiError ''quota'')"
        and cfg = cfg0 and st = initial_session and title = "''Q1''" and folder = None
        and api_copy_t = "\<lambda>file_id body. Inl (ApiError ''quota'')" and template_id = "''T1''"
        and api_copy_e = "\<lambda>file_id body. Inr []" and source_id = "''E1''"
        and loads = json_loads and content = "PStr ''hello''" and c = "PStr ''hello''"
        and slides_add_slide = "\<lambda>presentation_id title content. Inl (ApiError ''boom'')"
        and presentation_id = "''P1''" and slide_title = "''Agenda''"]
    by (simp add: failed_def falsy_outcome_def)
qed

text \<open>
  C1 as stated fails for \<open>copy_file\<close>: when the request raises, the tool returns the
  empty dictionary, which has neither a \<open>success\<close> nor a \<open>message\<close> key.
\<close>

theorem C1_copy_file_counterexample:
  "copy_file (drive_copy_file (\<lambda>file_id body. Inl (ApiError ''File not found''))) ''F1'' ''copy'' = []
   \<and> \<not> is_failure_envelope
        (copy_file (drive_copy_file (\<lambda>file_id body. Inl (ApiError ''File not found'')))
           ''F1'' ''copy'')"
  by (simp add: copy_file_def drive_copy_file_def is_failure_envelope_def)

text \<open>
  C2, as amended. For each sheet tool that falls back on the current spreadsheet: an
  identifier supplied by the caller, the empty string included, is the one the delegate
  receives; when the argument is \<open>None\<close> the delegate receives the stored current
  identifier, whatever it is (\<open>None\<close> when none was set).
\<close>

theorem C2_explicit_or_current:
  "list_sheets d_list st (Some s) = d_list (PStr s)
   \<and> list_sheets d_list st None = d_list (current_spreadsheet_id st)
   \<and> duplicate_sheet d_dup st (Some s) sheet_id new_name = d_dup (PStr s) sheet_id new_name
   \<and> duplicate_sheet d_dup st None sheet_id new_name = d_dup (current_spreadsheet_id st) sheet_id new_name
   \<and> rename_sheet d_ren st (Some s) sheet_id new_name = d_ren (PStr s) sheet_id new_name
   \<and> rename_sheet d_ren st None sheet_id new_name = d_ren (current_spreadsheet_id st) sheet_id new_name
   \<and> get_sheet_data d_data st (Some s) sheet_name range_name = d_data (PStr s) sheet_name range_name
   \<and> get_sheet_data d_data st None sheet_name range_name
       = d_data (current_spreadsheet_id st) sheet_name range_name
   \<and> add_rows d_rows st (Some s) sheet_name vals = d_rows (PStr s) sheet_name vals
   \<and> add_rows d_rows st None sheet_name vals = d_rows (current_spreadsheet_id st) sheet_name vals
   \<and> add_columns d_cols st (Some s) sheet_name vals = d_cols (PStr s) sheet_name vals
   \<and> add_columns d_cols st None sheet_name vals = d_cols (current_spreadsheet_id st) sheet_name vals
   \<and> update_cells d_cells st (Some s) sheet_name range_name vals = d_cells (PStr s) sheet_name range_name vals
   \<and> update_cells d_cells st None sheet_name range_name vals
       = d_cells (current_spreadsheet_id st) sheet_name range_name vals
   \<and> batch_update_cells d_batch st (Some s) sheet_name updates = d_batch (PStr s) sheet_name updates
   \<and> batch_update_cells d_batch st None sheet_name updates
       = d_batch (current_spreadsheet_id st) sheet_name updates
   \<and> delete_rows d_drows st (Some s) sheet_name i j = d_drows (PStr s) sheet_name i j
   \<and> delete_rows d_drows st None sheet_name i j = d_drows (current_spreadsheet_id st) sheet_name i j
   \<and> delete_columns d_dcols st (Some s) sheet_name i j = d_dcols (PStr s) sheet_name i j
   \<and> delete_columns d_dcols st None sheet_name i j = d_dcols (current_spreadsheet_id st) sheet_name i j
   \<and> create_chart d_chart st chart_type range_name sheet_name (Some s) title
       = d_chart chart_type range_name sheet_name (PStr s) title
   \<and> create_chart d_chart st chart_type range_name sheet_name None title
       = d_chart chart_type range_name sheet_name (current_spreadsheet_id st) title"
  by (simp add: list_sheets_def duplicate_sheet_def rename_sheet_def get_sheet_data_def
      add_rows_def add_columns_def update_cells_def batch_update_cells_def delete_rows_def
      delete_columns_def create_chart_def)

text \<open>
  C2 as stated fails for the empty string: it is not a non-empty identifier, yet the
  delegate receives it and not the stored identifier, the test being \<open>is None\<close>.
\<close>

theorem C2_empty_identifier_counterexample:
  "list_sheets (\<lambda>sid. sid) \<lparr>current_spreadsheet_id = PStr ''S1''\<rparr> (Some []) = PStr []
   \<and> list_sheets (\<lambda>sid. sid) \<lparr>current_spreadsheet_id = PStr ''S1''\<rparr> (Some [])
       \<noteq> current_spreadsheet_id \<lparr>current_spreadsheet_id = PStr ''S1''\<rparr>"
  by (simp add: list_sheets_def)

text \<open>
  The eleven sheet tools with the fallback, after a creation: when the result of one of
  the three creation tools carries the new identifier \<open>S\<close>, a non-empty string under
  \<open>spreadsheetId\<close>, or under \<open>id\<close> when there is no truthy \<open>spreadsheetId\<close>, then in
  the state the tool leaves, each of them called with \<open>None\<close> for the identifier calls
  its delegate with \<open>S\<close>.
\<close>

lemma fallback_after_creation:
  assumes carries: "dict_get result ''spreadsheetId'' = PStr S
           \<or> (\<not> truthy (dict_get result ''spreadsheetId'') \<and> dict_get result ''id'' = PStr S)"
    and nonempty: "S \<noteq> []"
    and created: "(dc title folder = result \<and> st' = snd (create_spreadsheet dc st title folder))
           \<or> (dt template_id title folder = result
               \<and> st' = snd (create_spreadsheet_from_template dt st template_id title folder))
           \<or> (de source_id title folder = result
               \<and> st' = snd (create_spreadsheet_from_existing de st source_id title folder))"
  shows "list_sheets d_list st' None = d_list (PStr S)
   \<and> duplicate_sheet d_dup st' None sheet_id new_name = d_dup (PStr S) sheet_id new_name
   \<and> rename_sheet d_ren st' None sheet_id new_name = d_ren (PStr S) sheet_id new_name
   \<and> get_sheet_data d_data st' None sheet_name range_name = d_data (PStr S) sheet_name range_name
   \<and> add_rows d_rows st' None sheet_name vals = d_rows (PStr S) sheet_name vals
   \<and> add_columns d_cols st' None sheet_name vals = d_cols (PStr S) sheet_name vals
   \<and> update_cells d_cells st' None sheet_name range_name vals = d_cells (PStr S) sheet_name range_name vals
   \<and> batch_update_cells d_batch st' None sheet_name updates = d_batch (PStr S) sheet_name updates
   \<and> delete_rows d_drows st' None sheet_name i j = d_drows (PStr S) sheet_name i j
   \<and> delete_columns d_dcols st' None sheet_name i j = d_dcols (PStr S) sheet_name i j
   \<and> create_chart d_chart st' chart_type range_name sheet_name None chart_title
       = d_chart chart_type range_name sheet_name (PStr S) chart_title"
proof -
  note ids = new_id_stored [OF carries nonempty]
  have "st' = st\<lparr>current_spreadsheet_id := PStr S\<rparr>"
    using created
  proof (elim disjE conjE)
    assume "dc title folder = result" "st' = snd (create_spreadsheet dc st title folder)"
    then show ?thesis
      by (simp add: create_spreadsheet_stores [OF _ ids nonempty])
  next
    assume "dt template_id title folder = result"
      "st' = snd (create_spreadsheet_from_template dt st template_id title folder)"
    then show ?thesis
      by (simp add: create_spreadsheet_from_template_stores [OF _ ids nonempty])
  next
    assume "de source_id title folder = result"
      "st' = snd (create_spreadsheet_from_existing de st source_id title folder)"
    then show ?thesis
      by (simp add: create_spreadsheet_from_existing_stores [OF _ ids nonempty])
  qed
  then have cur: "current_spreadsheet_id st' = PStr S" by simp
  show ?thesis
    by (simp add: cur list_sheets_def duplicate_sheet_def rename_sheet_def get_sheet_data_def
        add_rows_def add_columns_def update_cells_def batch_update_cells_def delete_rows_def
        delete_columns_def create_chart_def)
qed

lemma fallback_after_creation_example:
  "list_sheets (\<lambda>sid. sid)
     (snd (create_spreadsheet
             (drive_create_spreadsheet cfg0 (\<lambda>body. Inr [(''spreadsheetId'', PStr ''S1'')]))
             initial_session ''Q1 Report'' None))
     None = PStr ''S1''"
proof -
  let ?dc = "drive_create_spreadsheet cfg0 (\<lambda>body. Inr [(''spreadsheetId'', PStr ''S1'')])"
  let ?result = "?dc ''Q1 Report'' None"
  let ?st' = "snd (create_spreadsheet ?dc initial_session ''Q1 Report'' None)"
  have 1: "dict_get ?result ''spreadsheetId'' = PStr ''S1''
           \<or> (\<not> truthy (dict_get ?result ''spreadsheetId'') \<and> dict_get ?result ''id'' = PStr ''S1'')"
    by (simp add: drive_create_spreadsheet_def dict_get_def)
  have 2: "''S1'' \<noteq> []" by simp
  have 3: "(?dc ''Q1 Report'' None = ?result
              \<and> ?st' = snd (create_spreadsheet ?dc initial_session ''Q1 Report'' None))
           \<or> (dt template_id ''Q1 Report'' None = ?result
               \<and> ?st' = snd (create_spreadsheet_from_template dt initial_session template_id
                               ''Q1 Report'' None))
           \<or> (de source_id ''Q1 Report'' None = ?result
               \<and> ?st' = snd (create_spreadsheet_from_existing de initial_session source_id
                               ''Q1 Report'' None))"
    by simp
  from fallback_after_creation [OF 1 2 3, where d_list = "\<lambda>sid. sid"]
  show ?thesis by (rule conjunct1)
qed

text \<open>
  C3 does not hold of \<open>add_sheet\<close>, the twelfth sheet tool: it declares the global like
  the others but never reads it. After \<open>create_spreadsheet\<close> has returned and stored the
  identifier \<open>S1\<close>, \<open>add_sheet(None, 'Data')\<close> calls its delegate with \<open>None\<close>, where
  \<open>list_sheets(None)\<close> calls its own with \<open>S1\<close>.
\<close>

theorem C3_add_sheet_no_fallback:
  "fst (create_spreadsheet
          (drive_create_spreadsheet cfg0 (\<lambda>body. Inr [(''spreadsheetId'', PStr ''S1'')]))
          initial_session ''Q1 Report'' None)
     = [(''spreadsheetId'', PStr ''S1''), (''title'', PStr ''Q1 Report''),
        (''folder'', PStr ''default'')]
   \<and> current_spreadsheet_id
        (snd (create_spreadsheet
                (drive_create_spreadsheet cfg0 (\<lambda>body. Inr [(''spreadsheetId'', PStr ''S1'')]))
                initial_session ''Q1 Report'' None))
     = PStr ''S1''
   \<and> add_sheet (\<lambda>sid sheet_name. sid)
        (snd (create_spreadsheet
                (drive_create_spreadsheet cfg0 (\<lambda>body. Inr [(''spreadsheetId'', PStr ''S1'')]))
                initial_session ''Q1 Report'' None))
        None ''Data''
     = PNone
   \<and> list_sheets (\<lambda>sid. sid)
        (snd (create_spreadsheet
                (drive_create_spreadsheet cfg0 (\<lambda>body. Inr [(''spreadsheetId'', PStr ''S1'')]))
                initial_session ''Q1 Report'' None))
        None
     = PStr ''S1''"
  by (simp add: create_spreadsheet_def drive_create_spreadsheet_def dict_get_def py_or_def
      add_sheet_def list_sheets_def cfg0_def folder_or_default_def Let_def)

text \<open>
  C8, as amended. For a string \<open>s\<close>, every leading and trailing backtick is stripped.
  If the stripped text parses as JSON to a string \<open>t\<close>, the delegate is called with
  \<open>t\<close> in which every backslash followed by \<open>n\<close> has become a line feed; if parsing
  raises \<open>JSONDecodeError\<close>, it is called with the stripped text converted the same
  way. The stripped text is \<open>s\<close> without a run of backticks at each end and neither
  starts nor ends with a backtick, and a converted text has no backslash followed by
  \<open>n\<close> left. The theorem holds for every \<open>loads\<close>.
\<close>

theorem C8_slide_content:
  "(loads (str_strip_chars (\<lambda>c. c = BACKTICK) s) = Inr (JStr t) \<longrightarrow>
      slide_content loads (PStr s) = Inr (PStr (str_replace_nl t))
      \<and> add_slide_to_presentation loads slides_add_slide presentation_id title (PStr s)
          = slide_envelope title (slides_add_slide presentation_id title (PStr (str_replace_nl t))))
   \<and> (loads (str_strip_chars (\<lambda>c. c = BACKTICK) s) = Inl (JSONDecodeError m) \<longrightarrow>
      slide_content loads (PStr s)
        = Inr (PStr (str_replace_nl (str_strip_chars (\<lambda>c. c = BACKTICK) s)))
      \<and> add_slide_to_presentation loads slides_add_slide presentation_id title (PStr s)
          = slide_envelope title (slides_add_slide presentation_id title
              (PStr (str_replace_nl (str_strip_chars (\<lambda>c. c = BACKTICK) s)))))
   \<and> (\<exists>a b. s = a @ str_strip_chars (\<lambda>c. c = BACKTICK) s @ b
          \<and> (\<forall>c \<in> set a. c = BACKTICK) \<and> (\<forall>c \<in> set b. c = BACKTICK))
   \<and> (str_strip_chars (\<lambda>c. c = BACKTICK) s = []
       \<or> (hd (str_strip_chars (\<lambda>c. c = BACKTICK) s) \<noteq> BACKTICK
           \<and> last (str_strip_chars (\<lambda>c. c = BACKTICK) s) \<noteq> BACKTICK))
   \<and> \<not> has_escaped_nl (str_replace_nl u)"
proof (intro conjI impI)
  show "\<exists>a b. s = a @ str_strip_chars (\<lambda>c. c = BACKTICK) s @ b
          \<and> (\<forall>c \<in> set a. c = BACKTICK) \<and> (\<forall>c \<in> set b. c = BACKTICK)"
    by (rule strip_chars_decomp)
  show "str_strip_chars (\<lambda>c. c = BACKTICK) s = []
       \<or> (hd (str_strip_chars (\<lambda>c. c = BACKTICK) s) \<noteq> BACKTICK
           \<and> last (str_strip_chars (\<lambda>c. c = BACKTICK) s) \<noteq> BACKTICK)"
    by (rule strip_chars_ends)
  show "\<not> has_escaped_nl (str_replace_nl u)" by (rule replace_nl_complete)
qed (simp_all add: slide_content_str slide_content_text add_slide_to_presentation_def)

theorem C8_slide_content_witness:
  "slide_content json_loads
     (PStr [BACKTICK, DQUOTE, CHR ''a'', BACKSLASH, BACKSLASH, CHR ''n'', CHR ''b'', DQUOTE, BACKTICK])
     = Inr (PStr [CHR ''a'', NEWLINE, CHR ''b''])
   \<and> slide_content json_loads (PStr (BACKTICK # ''line1'' @ [BACKSLASH, CHR ''n''] @ ''line2''))
     = Inr (PStr (''line1'' @ [NEWLINE] @ ''line2''))"
proof -
  let ?s1 = "[BACKTICK, DQUOTE, CHR ''a'', BACKSLASH, BACKSLASH, CHR ''n'', CHR ''b'', DQUOTE, BACKTICK]"
  let ?s2 = "BACKTICK # ''line1'' @ [BACKSLASH, CHR ''n''] @ ''line2''"
  have 1: "json_loads (str_strip_chars (\<lambda>c. c = BACKTICK) ?s1)
           = Inr (JStr [CHR ''a'', BACKSLASH, CHR ''n'', CHR ''b''])"
    by code_simp
  have 2: "json_loads (str_strip_chars (\<lambda>c. c = BACKTICK) ?s2)
           = Inl (JSONDecodeError ''Expecting value'')"
    by code_simp
  have 3: "str_replace_nl [CHR ''a'', BACKSLASH, CHR ''n'', CHR ''b''] = [CHR ''a'', NEWLINE, CHR ''b'']"
    by simp
  have 4: "str_replace_nl (str_strip_chars (\<lambda>c. c = BACKTICK) ?s2) = ''line1'' @ [NEWLINE] @ ''line2''"
    by code_simp
  from 1 3 C8_slide_content [where loads = json_loads and s = ?s1
      and t = "[CHR ''a'', BACKSLASH, CHR ''n'', CHR ''b'']"]
  have a: "slide_content json_loads (PStr ?s1) = Inr (PStr [CHR ''a'', NEWLINE, CHR ''b''])"
    by simp
  from 2 4 C8_slide_content [where loads = json_loads and s = ?s2 and m = "''Expecting value''"]
  have b: "slide_content json_loads (PStr ?s2) = Inr (PStr (''line1'' @ [NEWLINE] @ ''line2''))"
    by simp
  from a b show ?thesis by (intro conjI)
qed

text \<open>
  C8 as stated fails where the parsed string itself holds a backslash followed by
  \<open>n\<close>: the JSON text \<open>"a\\nb"\<close> parses to the four characters \<open>a\nb\<close>, and the
  content that reaches the delegate is \<open>a\<close>, a line feed, \<open>b\<close>.
\<close>

theorem C8_parsed_value_counterexample:
  "json_loads [DQUOTE, CHR ''a'', BACKSLASH, BACKSLASH, CHR ''n'', CHR ''b'', DQUOTE]
     = Inr (JStr [CHR ''a'', BACKSLASH, CHR ''n'', CHR ''b''])
   \<and> slide_content json_loads
       (PStr [DQUOTE, CHR ''a'', BACKSLASH, BACKSLASH, CHR ''n'', CHR ''b'', DQUOTE])
     = Inr (PStr [CHR ''a'', NEWLINE, CHR ''b''])
   \<and> [CHR ''a'', NEWLINE, CHR ''b''] \<noteq> [CHR ''a'', BACKSLASH, CHR ''n'', CHR ''b'']"
  by code_simp

text \<open>
  C9: for a text without backticks and without a backslash followed by \<open>n\<close>, that
  does not parse as JSON (\<open>json.loads\<close> raises \<open>JSONDecodeError\<close>), the transform
  returns the text itself, and applying it to its own result returns the same again.
\<close>

theorem C9_plain_text_fixed:
  assumes "BACKTICK \<notin> set x" and "\<not> has_escaped_nl x" and "loads x = Inl (JSONDecodeError m)"
  shows "slide_content loads (PStr x) = Inr (PStr x)
   \<and> (case slide_content loads (PStr x) of
         Inl e \<Rightarrow> Inl e
       | Inr c \<Rightarrow> slide_content loads c) = slide_content loads (PStr x)"
proof -
  from assms(1) have s: "str_strip_chars (\<lambda>c. c = BACKTICK) x = x"
    by (intro strip_chars_none) auto
  from assms(3) s have "slide_content loads (PStr x) = Inr (PStr (str_replace_nl x))"
    by (simp add: slide_content_text)
  with assms(2) have "slide_content loads (PStr x) = Inr (PStr x)"
    by (simp add: replace_nl_id)
  then show ?thesis by simp
qed

theorem C9_plain_text_fixed_witness:
  "slide_content json_loads (PStr ''Quarterly results are in'') = Inr (PStr ''Quarterly results are in'')
   \<and> (case slide_content json_loads (PStr ''Quarterly results are in'') of
         Inl e \<Rightarrow> Inl e
       | Inr c \<Rightarrow> slide_content json_loads c)
     = slide_content json_loads (PStr ''Quarterly results are in'')"
proof -
  have 1: "BACKTICK \<notin> set ''Quarterly results are in''" by simp
  have 2: "\<not> has_escaped_nl ''Quarterly results are in''" by simp
  have 3: "json_loads ''Quarterly results are in'' = Inl (JSONDecodeError ''Expecting value'')"
    by code_simp
  from C9_plain_text_fixed [where loads = json_loads, OF 1 2 3] show ?thesis .
qed

text \<open>
  C10: when the delegate's result is empty, or has neither a \<open>spreadsheetId\<close> nor an
  \<open>id\<close> key, each of the three creation tools leaves the current spreadsheet
  identifier as it was.
\<close>

theorem C10_current_unchanged:
  assumes "result = [] \<or> (''spreadsheetId'' \<notin> fst ` set result \<and> ''id'' \<notin> fst ` set result)"
  shows "(dc title folder = result \<longrightarrow> snd (create_spreadsheet dc st title folder) = st)
   \<and> (dt template_id title folder = result
       \<longrightarrow> snd (create_spreadsheet_from_template dt st template_id title folder) = st)
   \<and> (de source_id title folder = result
       \<longrightarrow> snd (create_spreadsheet_from_existing de st source_id title folder) = st)"
proof -
  note f = no_id_falsy [OF assms]
  show ?thesis
    by (intro conjI impI)
      (simp_all add: create_spreadsheet_keeps [OF _ f] create_spreadsheet_from_template_keeps [OF _ f]
        create_spreadsheet_from_existing_keeps [OF _ f])
qed

theorem C10_current_unchanged_witness:
  "snd (create_spreadsheet (drive_create_spreadsheet cfg0 (\<lambda>body. Inl (ApiError ''quota'')))
          \<lparr>current_spreadsheet_id = PStr ''S0''\<rparr> ''Q1'' None)
     = \<lparr>current_spreadsheet_id = PStr ''S0''\<rparr>
   \<and> snd (create_spreadsheet_from_template (\<lambda>template_id title folder. [(''title'', PStr title)])
          \<lparr>current_spreadsheet_id = PStr ''S0''\<rparr> ''T1'' ''Q1'' None)
     = \<lparr>current_spreadsheet_id = PStr ''S0''\<rparr>
   \<and> snd (create_spreadsheet_from_existing (\<lambda>source_id title folder. [(''title'', PStr title)])
          \<lparr>current_spreadsheet_id = PStr ''S0''\<rparr> ''E1'' ''Q1'' None)
     = \<lparr>current_spreadsheet_id = PStr ''S0''\<rparr>"
proof -
  let ?dc = "drive_create_spreadsheet cfg0 (\<lambda>body. Inl (ApiError ''quota''))"
  let ?r = "[(''title'', PStr ''Q1'')]"
  have 1: "([] :: pydict) = []
           \<or> (''spreadsheetId'' \<notin> fst ` set ([] :: pydict) \<and> ''id'' \<notin> fst ` set ([] :: pydict))"
    by simp
  have 2: "?r = [] \<or> (''spreadsheetId'' \<notin> fst ` set ?r \<and> ''id'' \<notin> fst ` set ?r)"
    by simp
  have 3: "?dc ''Q1'' None = []" by (simp add: drive_create_spreadsheet_def)
  from C10_current_unchanged [OF 1, where dc = ?dc and title = "''Q1''" and folder = None] 3
  have a: "snd (create_spreadsheet ?dc \<lparr>current_spreadsheet_id = PStr ''S0''\<rparr> ''Q1'' None)
     = \<lparr>current_spreadsheet_id = PStr ''S0''\<rparr>"
    by simp
  from C10_current_unchanged [OF 2,
      where dt = "\<lambda>template_id title folder. [(''title'', PStr title)]"
        and de = "\<lambda>source_id title folder. [(''title'', PStr title)]"
        and title = "''Q1''"]
  have b: "snd (create_spreadsheet_from_template (\<lambda>template_id title folder. [(''title'', PStr title)])
          \<lparr>current_spreadsheet_id = PStr ''S0''\<rparr> ''T1'' ''Q1'' None)
     = \<lparr>current_spreadsheet_id = PStr ''S0''\<rparr>"
    and c: "snd (create_spreadsheet_from_existing (\<lambda>source_id title folder. [(''title'', PStr title)])
          \<lparr>current_spreadsheet_id = PStr ''S0''\<rparr> ''E1'' ''Q1'' None)
     = \<lparr>current_spreadsheet_id = PStr ''S0''\<rparr>"
    by simp_all
  from a b c show ?thesis by (intro conjI)
qed

end
